theory Spec2Isabelle
  imports Main "HOL-Library.Sublist" "HOL-Library.AList"
begin

section \<open>Python values used by the importer\<close>

text \<open>
  File names, tokens and paths are Python \<open>str\<close> values, modelled as \<open>string\<close>: the
  bytes of the name, one per character for an ASCII name.
  The exceptions the code can meet are values of \<open>error\<close>; a computation that mutates
  state and may raise returns a \<open>result\<close>, which keeps the state reached at the moment
  of the raise (Python mutates in place, so what was done before a raise stays done).
\<close>

datatype error = ValueError | KeyError string | IndexError | RuntimeError

datatype ('a, 's) result = Ok 'a 's | Raise error 's

fun state_of :: "('a, 's) result \<Rightarrow> 's" where
  "state_of (Ok a s) = s"
| "state_of (Raise e s) = s"

fun raised :: "('a, 's) result \<Rightarrow> error option" where
  "raised (Ok a s) = None"
| "raised (Raise e s) = Some e"

fun and_then :: "('a, 's) result \<Rightarrow> ('a \<Rightarrow> 's \<Rightarrow> ('b, 's) result) \<Rightarrow> ('b, 's) result" where
  "and_then (Ok a s) f = f a s"
| "and_then (Raise e s) f = Raise e s"

text \<open>\<open>and_then_do m f\<close> runs \<open>m\<close> from a state and then \<open>f\<close> on what it returned.\<close>

definition and_then_do :: "('s \<Rightarrow> ('a, 's) result) \<Rightarrow> ('a \<Rightarrow> 's \<Rightarrow> ('b, 's) result) \<Rightarrow> 's \<Rightarrow> ('b, 's) result" where
  "and_then_do m f s = and_then (m s) f"

subsection \<open>String methods\<close>

text \<open>\<open>s.endswith(e)\<close>: the last \<open>len(e)\<close> characters of \<open>s\<close> are \<open>e\<close>, compared as they are.\<close>

definition endswith :: "string \<Rightarrow> string \<Rightarrow> bool" where
  "endswith s e = (length e \<le> length s \<and> drop (length s - length e) s = e)"

text \<open>\<open>s.endswith(t)\<close> for a tuple \<open>t\<close>: some element of the tuple is a suffix.\<close>

definition endswith_any :: "string \<Rightarrow> string list \<Rightarrow> bool" where
  "endswith_any s es = list_ex (endswith s) es"

text \<open>\<open>s.removeprefix(p)\<close>.\<close>

definition removeprefix :: "string \<Rightarrow> string \<Rightarrow> string" where
  "removeprefix s p = (if prefix p s then drop (length p) s else s)"

text \<open>
  \<open>s.replace(old, new)\<close>: the occurrences of \<open>old\<close> are replaced from left to right,
  without overlap; an empty \<open>old\<close> matches before every character and at the end.
\<close>

function replace :: "string \<Rightarrow> string \<Rightarrow> string \<Rightarrow> string" where
  "replace [] old new = (if old = [] then new else [])"
| "replace (c # cs) old new =
     (if old = [] then new @ c # replace cs old new
      else if prefix old (c # cs) then new @ replace (drop (length old) (c # cs)) old new
      else c # replace cs old new)"
  by pat_completeness auto
termination
  by (relation "measure (\<lambda>(s, old, new). length s)") (auto simp: neq_Nil_conv)

text \<open>
  \<open>s.rsplit(sep, 1)\<close> for a one-character separator: split at the last occurrence,
  or the whole string alone when there is none.
\<close>

definition rsplit1 :: "string \<Rightarrow> char \<Rightarrow> string list" where
  "rsplit1 s sep =
     (if sep \<in> set s
      then [rev (tl (dropWhile (\<lambda>c. c \<noteq> sep) (rev s))), rev (takeWhile (\<lambda>c. c \<noteq> sep) (rev s))]
      else [s])"

text \<open>
  \<open>s.capitalize()\<close> maps case by the Unicode tables, over the code points of \<open>s\<close>. A
  \<open>string\<close> here is the UTF-8 bytes of a name, which is all that the other string methods
  of the scan need; \<open>str.capitalize\<close> itself is therefore a parameter of the scan (the
  field \<open>str_capitalize\<close> below). What it does to a \<open>str\<close> of ASCII characters is
  \<open>ascii_capitalize\<close>: the first character in upper case and all the others in lower
  case, where \<open>upper\<close> and \<open>lower\<close> are the case maps of the ASCII letters.
\<close>

definition is_ascii :: "char \<Rightarrow> bool" where
  "is_ascii c = (\<not> digit7 c)"

definition ascii_lowercase :: string where
  "ascii_lowercase = ''abcdefghijklmnopqrstuvwxyz''"

definition ascii_uppercase :: string where
  "ascii_uppercase = ''ABCDEFGHIJKLMNOPQRSTUVWXYZ''"

definition upper :: "char \<Rightarrow> char" where
  "upper c = (case map_of (zip ascii_lowercase ascii_uppercase) c of Some u \<Rightarrow> u | None \<Rightarrow> c)"

definition lower :: "char \<Rightarrow> char" where
  "lower c = (case map_of (zip ascii_uppercase ascii_lowercase) c of Some l \<Rightarrow> l | None \<Rightarrow> c)"

fun ascii_capitalize :: "string \<Rightarrow> string" where
  "ascii_capitalize [] = []"
| "ascii_capitalize (c # cs) = upper c # map lower cs"

subsection \<open>\<open>os.path\<close>\<close>

text \<open>
  \<open>p.rfind(c)\<close>: the index of the last occurrence, or \<open>-1\<close>.
\<close>

definition rfind :: "string \<Rightarrow> char \<Rightarrow> int" where
  "rfind p c =
     (if c \<in> set p then int (length p) - 1 - int (length (takeWhile (\<lambda>x. x \<noteq> c) (rev p)))
      else - 1)"

text \<open>
  \<open>os.path.splitext\<close>: the extension starts at the last dot after the last separator,
  unless only dots stand between that separator and the dot. The separator is \<open>/\<close>;
  \<open>ntpath.splitext\<close> agrees on every name that holds no separator, as the names of
  directory entries are.
\<close>

definition splitext :: "string \<Rightarrow> string \<times> string" where
  "splitext p =
     (let sepIndex = rfind p (CHR ''/''); dotIndex = rfind p (CHR ''.'') in
      if dotIndex > sepIndex \<and>
         list_ex (\<lambda>c. c \<noteq> CHR ''.'') (drop (nat (sepIndex + 1)) (take (nat dotIndex) p))
      then (take (nat dotIndex) p, drop (nat dotIndex) p)
      else (p, []))"

subsection \<open>The library functions taken as a parameter\<close>

text \<open>
  \<open>os.path.join\<close> and \<open>os.path.normcase\<close> belong to the platform's path module, and
  \<open>str.capitalize\<close> needs the Unicode tables: the importer takes the three as a
  parameter. \<open>posix_ascii\<close> is the instance with \<open>posixpath\<close> and with \<open>str.capitalize\<close>
  as it is on ASCII names; it is what the examples, whose names are ASCII, run on.
\<close>

record pylib =
  path_join :: "string \<Rightarrow> string \<Rightarrow> string"
  path_normcase :: "string \<Rightarrow> string"
  str_capitalize :: "string \<Rightarrow> string"

definition posix_ascii :: pylib where
  "posix_ascii = \<lparr>
     path_join = (\<lambda>a b. if prefix ''/'' b then b
                        else if a = [] \<or> endswith a ''/'' then a @ b
                        else a @ ''/'' @ b),
     path_normcase = (\<lambda>p. p),
     str_capitalize = ascii_capitalize \<rparr>"

section \<open>The catalog\<close>

text \<open>
  \<open>loaded_mats\<close> is a dict from material name to the list \<open>[textures, include]\<close>, where
  \<open>textures\<close> is a dict from texture token to the list \<open>[path, include]\<close>. Python dicts
  keep insertion order and the build iterates them, so a dict is an association list:
  \<open>map_of\<close> looks a key up and \<open>AList.update\<close> stores in place or appends a new key.
\<close>

type_synonym tex_entry = "string \<times> bool"
type_synonym tex_dict = "(string \<times> tex_entry) list"
type_synonym mat_entry = "tex_dict \<times> bool"
type_synonym catalog = "(string \<times> mat_entry) list"

text \<open>\<open>d.setdefault(k, v)\<close>: the value stored under \<open>k\<close>, after storing \<open>v\<close> if \<open>k\<close> was absent.\<close>

definition setdefault :: "('k \<times> 'v) list \<Rightarrow> 'k \<Rightarrow> 'v \<Rightarrow> 'v \<times> ('k \<times> 'v) list" where
  "setdefault d k v = (case map_of d k of Some x \<Rightarrow> (x, d) | None \<Rightarrow> (v, AList.update k v d))"

definition PREFIX :: string where "PREFIX = ''Mesh_''"
definition SUFFIX :: string where "SUFFIX = ''_mat''"
definition EXTENSIONS :: "string list" where
  "EXTENSIONS = [''.png'', ''.bmp'', ''.jpeg'', ''.jpg'']"

text \<open>
  Lines 56 to 58 for one selected file, once its two names are known: both dicts are
  filled with \<open>setdefault\<close>, and the material's textures, which the source mutates in
  place, are written back under the material's key.
\<close>

definition store_texture :: "pylib \<Rightarrow> string \<Rightarrow> string \<Rightarrow> string \<Rightarrow> string \<Rightarrow> catalog \<Rightarrow> catalog" where
  "store_texture lib folder_path file mat_name tex_name mats =
     (let (entry, mats1) = setdefault mats (str_capitalize lib mat_name) ([], True);
          (tex, textures) = setdefault (fst entry) tex_name
                              (path_normcase lib (path_join lib folder_path file), True)
      in AList.update (str_capitalize lib mat_name) (textures, snd entry) mats1)"

text \<open>
  Line 55: the base name without the prefix and without any \<open>_mat\<close>, split at its last
  underscore. The assignment to two names raises \<open>ValueError\<close> unless \<open>rsplit\<close>
  returned two elements, which is the second case in \<open>load_materials_data\<close>.
\<close>

definition strip_name :: "string \<Rightarrow> string" where
  "strip_name file = replace (removeprefix (fst (splitext file)) PREFIX) SUFFIX []"

definition parse_name :: "string \<Rightarrow> string list" where
  "parse_name file = rsplit1 (strip_name file) (CHR ''_'')"

text \<open>
  \<open>load_materials_data\<close>, over the names that \<open>listdir(folder_path)\<close> returned.
\<close>

fun load_materials_data :: "pylib \<Rightarrow> string \<Rightarrow> string list \<Rightarrow> catalog \<Rightarrow> (unit, catalog) result" where
  "load_materials_data lib folder_path [] mats = Ok () mats"
| "load_materials_data lib folder_path (file # files) mats =
     (if endswith_any file EXTENSIONS
      then (case parse_name file of
              [mat_name, tex_name] \<Rightarrow>
                load_materials_data lib folder_path files
                  (store_texture lib folder_path file mat_name tex_name mats)
            | _ \<Rightarrow> Raise ValueError mats)
      else load_materials_data lib folder_path files mats)"

text \<open>Reading the catalog: the entry of a texture and the include flag of a material.\<close>

definition texture_of :: "catalog \<Rightarrow> string \<Rightarrow> string \<Rightarrow> tex_entry option" where
  "texture_of mats key tex =
     (case map_of mats key of None \<Rightarrow> None | Some entry \<Rightarrow> map_of (fst entry) tex)"

definition include_of :: "catalog \<Rightarrow> string \<Rightarrow> bool option" where
  "include_of mats key = map_option snd (map_of mats key)"

section \<open>The host\<close>

text \<open>
  \<open>TexType\<close> is the enum of lines 18 to 24: \<open>TexType_name\<close> is a member's \<open>name\<close>,
  \<open>TexType_value\<close> its \<open>value\<close>, \<open>TexType_members\<close> is \<open>list(TexType)\<close> and
  \<open>TexType_getitem\<close> is \<open>TexType[s]\<close>, where \<open>None\<close> stands for the \<open>KeyError\<close>.
\<close>

datatype TexType = BaseColor | Metallic | Normal | Roughness | Emissive | Height

definition TexType_members :: "TexType list" where
  "TexType_members = [BaseColor, Metallic, Normal, Roughness, Emissive, Height]"

fun TexType_name :: "TexType \<Rightarrow> string" where
  "TexType_name BaseColor = ''BaseColor''"
| "TexType_name Metallic = ''Metallic''"
| "TexType_name Normal = ''Normal''"
| "TexType_name Roughness = ''Roughness''"
| "TexType_name Emissive = ''Emissive''"
| "TexType_name Height = ''Height''"

fun TexType_value :: "TexType \<Rightarrow> string" where
  "TexType_value BaseColor = ''diffuse_color''"
| "TexType_value Metallic = ''refl_metalness''"
| "TexType_value Normal = ''bump_input''"
| "TexType_value Roughness = ''refl_roughness''"
| "TexType_value Emissive = ''emissive_not_implemented''"
| "TexType_value Height = ''height_not_implemented''"

definition TexType_getitem :: "string \<Rightarrow> TexType option" where
  "TexType_getitem s = find (\<lambda>k. TexType_name k = s) TexType_members"

text \<open>
  The calls the importer makes into \<open>maya.cmds\<close>, with the arguments that vary; the
  keyword arguments that are the same at every call site are in the constructor's name or
  left out. A \<open>world\<close> holds the calls issued so far, in order, and what was printed.
\<close>

datatype node_flag = asTexture_isColorManaged | asUtility | asShader

datatype call =
    ShadingNode string string node_flag
  | Sets string
  | ConnectAttr string string bool
  | SetAttrString string string
  | SetAttrInt string int
  | DefaultNavigation string string
  | Ls_sl

record world =
  calls :: "call list"
  printed :: "string list"

text \<open>
  The host is a parameter: from the calls issued before and the call made now it gives
  the name of the node that \<open>shadingNode\<close> created, whether a command whose result the
  importer drops went through, and the selection that \<open>ls(sl=True)\<close> returns. \<open>None\<close>
  and \<open>False\<close> are a failed host call, which raises \<open>RuntimeError\<close>.
\<close>

record host =
  node_created :: "call list \<Rightarrow> call \<Rightarrow> string option"
  command_done :: "call list \<Rightarrow> call \<Rightarrow> bool"
  selected_nodes :: "call list \<Rightarrow> string list option"

definition issue :: "call \<Rightarrow> world \<Rightarrow> world" where
  "issue c w = w\<lparr>calls := calls w @ [c]\<rparr>"

definition shadingNode :: "host \<Rightarrow> string \<Rightarrow> string \<Rightarrow> node_flag \<Rightarrow> world \<Rightarrow> (string, world) result" where
  "shadingNode H ty nm flag w =
     (case node_created H (calls w) (ShadingNode ty nm flag) of
        Some node \<Rightarrow> Ok node (issue (ShadingNode ty nm flag) w)
      | None \<Rightarrow> Raise RuntimeError (issue (ShadingNode ty nm flag) w))"

definition command :: "host \<Rightarrow> call \<Rightarrow> world \<Rightarrow> (unit, world) result" where
  "command H c w =
     (if command_done H (calls w) c then Ok () (issue c w) else Raise RuntimeError (issue c w))"

definition ls_sl :: "host \<Rightarrow> world \<Rightarrow> (string list, world) result" where
  "ls_sl H w =
     (case selected_nodes H (calls w) of
        Some sel \<Rightarrow> Ok sel (issue Ls_sl w)
      | None \<Rightarrow> Raise RuntimeError (issue Ls_sl w))"

definition py_print :: "string \<Rightarrow> world \<Rightarrow> (unit, world) result" where
  "py_print s w = Ok () (w\<lparr>printed := printed w @ [s]\<rparr>)"

section \<open>The importer\<close>

record importer =
  loaded_mats :: catalog
  texture_type_filter :: "TexType set"

definition FILE_NODE_SIMPLE_BINDS :: "string list" where
  "FILE_NODE_SIMPLE_BINDS =
     [''coverage'', ''wrapU'', ''mirrorU'', ''mirrorV'', ''vertexUvOne'', ''vertexCameraOne'',
      ''rotateFrame'', ''offset'', ''repeatUV'', ''wrapV'', ''noiseUV'', ''stagger'',
      ''vertexUvTwo'', ''translateFrame'', ''vertexUvThree'', ''rotateUV'']"

definition FILE_NODE_UNIQUE_BINDS :: "(string \<times> string) list" where
  "FILE_NODE_UNIQUE_BINDS = [(''outUV'', ''uv''), (''outUvFilterSize'', ''uvFilterSize'')]"

text \<open>\<open>__init__\<close>: both removals find their member, so neither raises.\<close>

definition MatImporter_init :: importer where
  "MatImporter_init =
     \<lparr> loaded_mats = [],
       texture_type_filter = set TexType_members - {Emissive} - {Height} \<rparr>"

definition delete_materials_data :: "importer \<Rightarrow> importer" where
  "delete_materials_data self = self\<lparr>loaded_mats := []\<rparr>"

text \<open>The two loops of \<open>_create_texture_node\<close>, lines 66 to 69.\<close>

fun connect_simple_binds :: "host \<Rightarrow> string \<Rightarrow> string \<Rightarrow> string list \<Rightarrow> world \<Rightarrow> (unit, world) result" where
  "connect_simple_binds H node_tex node_file [] w = Ok () w"
| "connect_simple_binds H node_tex node_file (connection # rest) w =
     and_then
       (command H (ConnectAttr (node_tex @ ''.'' @ connection) (node_file @ ''.'' @ connection) True) w)
       (\<lambda>_. connect_simple_binds H node_tex node_file rest)"

fun connect_unique_binds :: "host \<Rightarrow> string \<Rightarrow> string \<Rightarrow> (string \<times> string) list \<Rightarrow> world \<Rightarrow> (unit, world) result" where
  "connect_unique_binds H node_tex node_file [] w = Ok () w"
| "connect_unique_binds H node_tex node_file ((connection_a, connection_b) # rest) w =
     and_then
       (command H (ConnectAttr (node_tex @ ''.'' @ connection_a) (node_file @ ''.'' @ connection_b) False) w)
       (\<lambda>_. connect_unique_binds H node_tex node_file rest)"

definition create_texture_node :: "host \<Rightarrow> string \<Rightarrow> string \<Rightarrow> bool \<Rightarrow> world \<Rightarrow> (string \<times> string, world) result" where
  "create_texture_node H name file_name isRaw w =
     and_then (shadingNode H ''file'' (name @ ''_file'') asTexture_isColorManaged w) (\<lambda>node_file.
     and_then_do (shadingNode H ''place2dTexture'' (name @ ''_texture'') asUtility) (\<lambda>node_tex.
     and_then_do (connect_simple_binds H node_tex node_file FILE_NODE_SIMPLE_BINDS) (\<lambda>_.
     and_then_do (connect_unique_binds H node_tex node_file FILE_NODE_UNIQUE_BINDS) (\<lambda>_.
     and_then_do (command H (SetAttrString (node_file @ ''.fileTextureName'') file_name)) (\<lambda>_.
     and_then_do (if isRaw then command H (SetAttrString (node_file @ ''.colorSpace'') ''Raw'')
                  else Ok ()) (\<lambda>_.
     Ok (node_file, node_tex)))))))"

text \<open>The message of line 87, as the argument of \<open>print\<close>.\<close>

definition not_supported_message :: "string \<Rightarrow> string \<Rightarrow> string \<Rightarrow> string" where
  "not_supported_message tex_name material_node file =
     tex_name @ '' texture type is not supported'' @ [CHR 0x0A] @
     material_node @ ''_'' @ tex_name @ '' was not imported'' @ [CHR 0x0A] @
     ''File: '' @ file @ [CHR 0x0A]"

text \<open>Lines 96 to 101, after the texture was connected.\<close>

definition fix_connection :: "host \<Rightarrow> string \<Rightarrow> TexType \<Rightarrow> world \<Rightarrow> (unit, world) result" where
  "fix_connection H material_node tex_type =
     (if tex_type = Normal
      then and_then_do (ls_sl H) (\<lambda>sel.
             case sel of
               [] \<Rightarrow> Raise IndexError
             | bump_node # _ \<Rightarrow> command H (SetAttrInt (bump_node @ ''.inputType'') 1))
      else if tex_type = Metallic
      then command H (SetAttrInt (material_node @ ''.refl_fresnel_mode'') 2)
      else Ok ())"

text \<open>The body of the loop of \<open>import_loaded_material\<close>, lines 82 to 101, for one item.\<close>

definition import_texture :: "host \<Rightarrow> importer \<Rightarrow> string \<Rightarrow> string \<Rightarrow> string \<times> tex_entry \<Rightarrow> world \<Rightarrow> (unit, world) result" where
  "import_texture H self material_name material_node item =
     (case item of (tex_name, file, is_import) \<Rightarrow>
        if \<not> is_import then Ok ()
        else (case TexType_getitem tex_name of
                None \<Rightarrow> py_print (not_supported_message tex_name material_node file)
              | Some tex_type \<Rightarrow>
                  if tex_type \<notin> texture_type_filter self then Ok ()
                  else and_then_do
                         (create_texture_node H (material_name @ ''_'' @ TexType_name tex_type) file
                            (tex_type \<noteq> BaseColor))
                         (\<lambda>(node_file, node_tex).
                            and_then_do
                              (command H (DefaultNavigation node_file
                                            (material_node @ ''.'' @ TexType_value tex_type)))
                              (\<lambda>_. fix_connection H material_node tex_type))))"

fun import_textures :: "host \<Rightarrow> importer \<Rightarrow> string \<Rightarrow> string \<Rightarrow> tex_dict \<Rightarrow> world \<Rightarrow> (unit, world) result" where
  "import_textures H self material_name material_node [] w = Ok () w"
| "import_textures H self material_name material_node (item # rest) w =
     and_then (import_texture H self material_name material_node item w)
       (\<lambda>_. import_textures H self material_name material_node rest)"

definition import_loaded_material :: "host \<Rightarrow> importer \<Rightarrow> string \<Rightarrow> world \<Rightarrow> (unit, world) result" where
  "import_loaded_material H self material_name =
     and_then_do (shadingNode H ''RedshiftMaterial'' material_name asShader) (\<lambda>material_node.
     and_then_do (command H (Sets (''rsMaterial_'' @ material_node))) (\<lambda>_.
     and_then_do (command H (ConnectAttr (material_node @ ''.outColor'')
                               (''rsMaterial_'' @ material_node @ ''.surfaceShader'') False)) (\<lambda>_.
     case map_of (loaded_mats self) material_name of
       None \<Rightarrow> Raise (KeyError material_name)
     | Some entry \<Rightarrow> import_textures H self material_name material_node (fst entry))))"

text \<open>
  \<open>import_all_loaded_materials\<close>: the loop over \<open>self.loaded_mats.items()\<close>; nothing
  catches what \<open>import_loaded_material\<close> raises.
\<close>

fun import_materials :: "host \<Rightarrow> importer \<Rightarrow> catalog \<Rightarrow> world \<Rightarrow> (unit, world) result" where
  "import_materials H self [] w = Ok () w"
| "import_materials H self ((material_name, entry) # rest) w =
     (if \<not> snd entry then import_materials H self rest w
      else and_then (import_loaded_material H self material_name w)
             (\<lambda>_. import_materials H self rest))"

definition import_all_loaded_materials :: "host \<Rightarrow> importer \<Rightarrow> world \<Rightarrow> (unit, world) result" where
  "import_all_loaded_materials H self = import_materials H self (loaded_mats self)"

section \<open>The control window\<close>

text \<open>
  \<open>toggle\<close> of \<open>_draw_texture_import_options_box\<close>: \<open>set.add\<close>, or \<open>set.remove\<close>, which
  raises \<open>KeyError\<close> on a member that is not in the set.
\<close>

definition toggle :: "TexType \<Rightarrow> bool \<Rightarrow> importer \<Rightarrow> (unit, importer) result" where
  "toggle category v self =
     (if v then Ok () (self\<lparr>texture_type_filter := insert category (texture_type_filter self)\<rparr>)
      else if category \<in> texture_type_filter self
      then Ok () (self\<lparr>texture_type_filter := texture_type_filter self - {category}\<rparr>)
      else Raise (KeyError (TexType_name category)) self)"

text \<open>
  \<open>on_material_toggle_switched\<close> and \<open>on_texture_selected\<close> assign the include flag of
  the entry their check box was drawn for.
\<close>

definition on_material_toggle_switched :: "string \<Rightarrow> bool \<Rightarrow> catalog \<Rightarrow> catalog" where
  "on_material_toggle_switched name state mats =
     map (\<lambda>(k, entry). if k = name then (k, fst entry, state) else (k, entry)) mats"

definition on_texture_selected :: "string \<Rightarrow> string \<Rightarrow> bool \<Rightarrow> catalog \<Rightarrow> catalog" where
  "on_texture_selected name tex state mats =
     map (\<lambda>(k, entry).
            if k = name
            then (k, map (\<lambda>(t, data). if t = tex then (t, fst data, state) else (t, data)) (fst entry),
                  snd entry)
            else (k, entry)) mats"

text \<open>
  What the user can do in the window. \<open>OpenFolder\<close> carries what the folder dialog
  returned and, for a chosen folder, the names that \<open>listdir\<close> gives; \<open>ImportSelected\<close>
  carries the answer to the confirmation dialog and the host as it answers during that
  import. An exception that leaves a handler ends the handler only: the host reports it
  and the window stays, with everything the handler did before.
\<close>

datatype event =
    OpenFolder "(string \<times> string list) option"
  | ToggleTexType TexType bool
  | ToggleMaterial string bool
  | ToggleTexture string string bool
  | ImportSelected host bool

fun handle :: "pylib \<Rightarrow> event \<Rightarrow> importer \<times> world \<Rightarrow> importer \<times> world" where
  "handle lib (OpenFolder None) (self, w) = (self, w)"
| "handle lib (OpenFolder (Some (folder, names))) (self, w) =
     (self\<lparr>loaded_mats := state_of (load_materials_data lib folder names (loaded_mats self))\<rparr>, w)"
| "handle lib (ToggleTexType category v) (self, w) = (state_of (toggle category v self), w)"
| "handle lib (ToggleMaterial name state) (self, w) =
     (self\<lparr>loaded_mats := on_material_toggle_switched name state (loaded_mats self)\<rparr>, w)"
| "handle lib (ToggleTexture name tex state) (self, w) =
     (self\<lparr>loaded_mats := on_texture_selected name tex state (loaded_mats self)\<rparr>, w)"
| "handle lib (ImportSelected H yes) (self, w) =
     (if loaded_mats self \<noteq> [] \<and> yes
      then (self, state_of (import_all_loaded_materials H self w))
      else (self, w))"

text \<open>
  Lines 188 and 189 disable the check boxes of \<open>Emissive\<close> and \<open>Height\<close>: a disabled
  control sends no change command.
\<close>

fun ui_enabled :: "event \<Rightarrow> bool" where
  "ui_enabled (ToggleTexType category v) = (category \<noteq> Emissive \<and> category \<noteq> Height)"
| "ui_enabled e = True"

text \<open>Lines 247 to 249: a new importer, whose catalog the window empties.\<close>

definition initial :: "importer \<times> world" where
  "initial = (delete_materials_data MatImporter_init, \<lparr>calls = [], printed = []\<rparr>)"

inductive reachable :: "pylib \<Rightarrow> importer \<times> world \<Rightarrow> bool" for lib where
  start: "reachable lib initial"
| step: "reachable lib s \<Longrightarrow> ui_enabled e \<Longrightarrow> reachable lib (handle lib e s)"

fun run :: "pylib \<Rightarrow> event list \<Rightarrow> importer \<times> world \<Rightarrow> importer \<times> world" where
  "run lib [] s = s"
| "run lib (e # es) s = run lib es (handle lib e s)"

section \<open>Reading the calls\<close>

text \<open>The calls a computation added to the world it started from.\<close>

definition new_calls :: "world \<Rightarrow> ('a, world) result \<Rightarrow> call list" where
  "new_calls w r = drop (length (calls w)) (calls (state_of r))"

text \<open>
  A call wires a texture into the slot of kind \<open>k\<close> when it is the \<open>defaultNavigation\<close>
  of line 94 to a destination \<open>node.slot\<close> with the slot of \<open>k\<close>.
\<close>

definition wires :: "TexType \<Rightarrow> call \<Rightarrow> bool" where
  "wires k c =
     (case c of
        DefaultNavigation src dst \<Rightarrow> endswith dst (''.'' @ TexType_value k)
      | _ \<Rightarrow> False)"

text \<open>
  What holds in every state the window can reach: the two kinds that are not implemented
  are outside the filter, and no call issued so far wires into one of their slots.
\<close>

definition never_wired :: "importer \<times> world \<Rightarrow> bool" where
  "never_wired s =
     (Emissive \<notin> texture_type_filter (fst s) \<and> Height \<notin> texture_type_filter (fst s) \<and>
      list_all (\<lambda>c. \<not> wires Emissive c \<and> \<not> wires Height c) (calls (snd s)))"

text \<open>
  \<open>emits P w r\<close>: the computation that gave \<open>r\<close> from the world \<open>w\<close> kept the calls of
  \<open>w\<close> and added only calls that satisfy \<open>P\<close>.
\<close>

definition emits :: "(call \<Rightarrow> bool) \<Rightarrow> world \<Rightarrow> ('a, world) result \<Rightarrow> bool" where
  "emits P w r =
     (take (length (calls w)) (calls (state_of r)) = calls w \<and>
      length (calls w) \<le> length (calls (state_of r)) \<and>
      list_all P (new_calls w r))"

text \<open>
  The calls a build can issue with the filter \<open>flt\<close> for materials named in \<open>names\<close>: a
  shader node only for one of the names, a wiring only into the slot of a kind of the
  filter.
\<close>

definition build_call :: "TexType set \<Rightarrow> string set \<Rightarrow> call \<Rightarrow> bool" where
  "build_call flt names c =
     (case c of
        ShadingNode ty nm flag \<Rightarrow>
          ty = ''RedshiftMaterial'' \<and> nm \<in> names \<and> flag = asShader \<or>
          ty = ''file'' \<or> ty = ''place2dTexture''
      | DefaultNavigation src dst \<Rightarrow> (\<exists>k \<in> flt. endswith dst (''.'' @ TexType_value k))
      | _ \<Rightarrow> True)"


text \<open>
  \<open>buildAll\<close> in the specification's words: \<open>buildMaterial\<close> for each material whose
  include flag is true, in the order of the catalog.
\<close>

fun build_each :: "host \<Rightarrow> importer \<Rightarrow> string list \<Rightarrow> world \<Rightarrow> (unit, world) result" where
  "build_each H self [] w = Ok () w"
| "build_each H self (name # names) w =
     and_then (import_loaded_material H self name w) (\<lambda>_. build_each H self names)"

definition included_materials :: "catalog \<Rightarrow> string list" where
  "included_materials mats = map fst (filter (\<lambda>(name, entry). snd entry) mats)"

section \<open>Hosts to run the importer on\<close>

text \<open>
  \<open>echo_host\<close> accepts every call, names a node as asked and has one node selected;
  \<open>refusing_host bad\<close> is the same host but for \<open>shadingNode\<close> with the name \<open>bad\<close>, which
  fails.
\<close>

definition echo_host :: host where
  "echo_host =
     \<lparr> node_created = (\<lambda>tr c. case c of ShadingNode ty nm flag \<Rightarrow> Some nm | _ \<Rightarrow> None),
       command_done = (\<lambda>tr c. True),
       selected_nodes = (\<lambda>tr. Some [''bump2d1'']) \<rparr>"

definition refusing_host :: "string \<Rightarrow> host" where
  "refusing_host bad =
     echo_host\<lparr>node_created :=
       (\<lambda>tr c. case c of ShadingNode ty nm flag \<Rightarrow> if nm = bad then None else Some nm
                | _ \<Rightarrow> None)\<rparr>"

section \<open>Importers to run the build on\<close>

definition empty_world :: world where
  "empty_world = \<lparr>calls = [], printed = []\<rparr>"

definition two_materials :: importer where
  "two_materials = MatImporter_init\<lparr>loaded_mats := [(''A'', [], True), (''B'', [], True)]\<rparr>"

definition second_material_only :: importer where
  "second_material_only = MatImporter_init\<lparr>loaded_mats := [(''A'', [], False), (''B'', [], True)]\<rparr>"

definition rock_importer :: importer where
  "rock_importer = MatImporter_init\<lparr>loaded_mats :=
     [(''Rock'', [(''Foo'', ''/tex/Mesh_Rock_mat_Foo.png'', True),
                  (''Emissive'', ''/tex/Mesh_Rock_mat_Emissive.png'', True),
                  (''basecolor'', ''/tex/Mesh_Rock_mat_basecolor.png'', True)], True)]\<rparr>"

text \<open>
  A session in the window: a folder with an emissive and a height texture is opened, a
  kind is toggled off, the emissive texture is ticked and the import is confirmed.
\<close>

definition emissive_session :: "event list" where
  "emissive_session =
     [OpenFolder (Some (''/tex'', [''Mesh_Rock_mat_Emissive.png'', ''Mesh_Rock_mat_Height.png''])),
      ToggleTexType Normal False,
      ToggleTexture ''Rock'' ''Emissive'' True,
      ImportSelected echo_host True]"

section \<open>Catalogs to run the scan on\<close>

text \<open>A catalog after a scan in which the user cleared both include flags.\<close>

definition rock_catalog :: catalog where
  "rock_catalog = [(''Rock'', [(''BaseColor'', ''/tex/Mesh_rock_mat_BaseColor.png'', False)], False)]"

section \<open>String methods: what they compute\<close>

lemma endswith_suffix: "endswith s e \<longleftrightarrow> suffix e s"
proof
  assume "endswith s e"
  then have "s = take (length s - length e) s @ e"
    by (metis append_take_drop_id endswith_def)
  then show "suffix e s" by (metis suffixI)
next
  assume "suffix e s"
  then obtain zs where "s = zs @ e" by (auto simp: suffix_def)
  then show "endswith s e" by (simp add: endswith_def)
qed

lemma endswith_any_suffix: "endswith_any s es \<longleftrightarrow> (\<exists>e \<in> set es. suffix e s)"
  by (simp add: endswith_any_def list_ex_iff endswith_suffix)

lemma takeWhile_upto: "c \<notin> set xs \<Longrightarrow> takeWhile (\<lambda>x. x \<noteq> c) (xs @ c # ys) = xs"
  by (induction xs) auto

lemma dropWhile_upto: "c \<notin> set xs \<Longrightarrow> dropWhile (\<lambda>x. x \<noteq> c) (xs @ c # ys) = c # ys"
  by (induction xs) auto

lemma rsplit1_last: "c \<notin> set t \<Longrightarrow> rsplit1 (m @ c # t) c = [m, t]"
  by (simp add: rsplit1_def takeWhile_upto dropWhile_upto)

lemma rsplit1_none: "c \<notin> set s \<Longrightarrow> rsplit1 s c = [s]"
  by (simp add: rsplit1_def)

lemma replace_absent: "old \<noteq> [] \<Longrightarrow> hd old \<notin> set s \<Longrightarrow> replace s old new = s"
  by (induction s) (auto simp: prefix_def neq_Nil_conv)

lemma prefix_mat_straddle:
  assumes "prefix ''_mat'' ((c # m) @ ''_mat_'' @ t)"
  shows "prefix ''_mat'' (c # m)"
proof (cases m)
  case Nil
  with assms show ?thesis by simp
next
  case m1: (Cons a m')
  show ?thesis
  proof (cases m')
    case Nil
    with assms m1 show ?thesis by simp
  next
    case m2: (Cons b m'')
    show ?thesis
    proof (cases m'')
      case Nil
      with assms m1 m2 show ?thesis by simp
    next
      case (Cons d r)
      with assms m1 m2 show ?thesis by simp
    qed
  qed
qed

lemma replace_step:
  "old \<noteq> [] \<Longrightarrow> \<not> prefix old (c # cs) \<Longrightarrow> replace (c # cs) old new = c # replace cs old new"
  by simp

lemma replace_suffix_token:
  "\<not> sublist ''_mat'' m \<Longrightarrow> CHR ''_'' \<notin> set t \<Longrightarrow> \<not> prefix ''mat'' t \<Longrightarrow>
   replace (m @ ''_mat_'' @ t) ''_mat'' [] = m @ ''_'' @ t"
proof (induction m)
  case Nil
  then show ?case by (simp add: replace_absent)
next
  case (Cons c m)
  have a: "\<not> prefix ''_mat'' (c # m)" and b: "\<not> sublist ''_mat'' m"
    using Cons.prems(1) by (auto simp: sublist_Cons_right)
  have np: "\<not> prefix ''_mat'' (c # (m @ ''_mat_'' @ t))"
  proof
    assume "prefix ''_mat'' (c # (m @ ''_mat_'' @ t))"
    then have "prefix ''_mat'' ((c # m) @ ''_mat_'' @ t)" by (simp only: append_Cons)
    then show False using a prefix_mat_straddle by blast
  qed
  have "replace ((c # m) @ ''_mat_'' @ t) ''_mat'' [] = replace (c # (m @ ''_mat_'' @ t)) ''_mat'' []"
    by (simp only: append_Cons)
  also have "\<dots> = c # replace (m @ ''_mat_'' @ t) ''_mat'' []"
    by (rule replace_step) (simp, rule np)
  also have "\<dots> = c # (m @ ''_'' @ t)"
    by (simp only: Cons.IH [OF b Cons.prems(2,3)])
  finally show ?case by (simp only: append_Cons)
qed

subsection \<open>Names that follow the schema\<close>

lemma rfind_absent: "c \<notin> set p \<Longrightarrow> rfind p c = - 1"
  by (simp add: rfind_def)

lemma rfind_last: "c \<notin> set e \<Longrightarrow> rfind (stem @ c # e) c = int (length stem)"
  by (simp add: rfind_def takeWhile_upto)

lemma splitext_simple:
  assumes "CHR ''/'' \<notin> set stem" "CHR ''/'' \<notin> set e" "CHR ''.'' \<notin> set e"
    and "\<exists>c \<in> set stem. c \<noteq> CHR ''.''"
  shows "splitext (stem @ CHR ''.'' # e) = (stem, CHR ''.'' # e)"
proof -
  have s: "rfind (stem @ CHR ''.'' # e) (CHR ''/'') = - 1"
    using assms(1,2) by (simp add: rfind_absent)
  have d: "rfind (stem @ CHR ''.'' # e) (CHR ''.'') = int (length stem)"
    using assms(3) by (rule rfind_last)
  show ?thesis
    unfolding splitext_def s d using assms(4) by (simp add: list_ex_iff)
qed

lemma extension_cases:
  "ext \<in> set EXTENSIONS \<Longrightarrow> \<exists>e. ext = CHR ''.'' # e \<and> CHR ''/'' \<notin> set e \<and> CHR ''.'' \<notin> set e"
  by (auto simp: EXTENSIONS_def)

lemma strip_name_schema:
  assumes "ext \<in> set EXTENSIONS"
    and "CHR ''/'' \<notin> set m" "CHR ''/'' \<notin> set t"
    and "\<not> sublist ''_mat'' m" "CHR ''_'' \<notin> set t" "\<not> prefix ''mat'' t"
  shows "strip_name (''Mesh_'' @ m @ ''_mat_'' @ t @ ext) = m @ ''_'' @ t"
proof -
  obtain e where e: "ext = CHR ''.'' # e" "CHR ''/'' \<notin> set e" "CHR ''.'' \<notin> set e"
    using extension_cases [OF assms(1)] by blast
  let ?stem = "''Mesh_'' @ m @ ''_mat_'' @ t"
  have "splitext (?stem @ CHR ''.'' # e) = (?stem, CHR ''.'' # e)"
    by (rule splitext_simple) (use assms(2,3) e in auto)
  then have "fst (splitext (''Mesh_'' @ m @ ''_mat_'' @ t @ ext)) = ?stem"
    by (simp add: e)
  moreover have "removeprefix ?stem PREFIX = m @ ''_mat_'' @ t"
    by (simp add: removeprefix_def PREFIX_def)
  ultimately show ?thesis
    using replace_suffix_token [OF assms(4,5,6)]
    by (simp only: strip_name_def SUFFIX_def)
qed

lemma parse_name_schema:
  assumes "ext \<in> set EXTENSIONS"
    and "CHR ''/'' \<notin> set m" "CHR ''/'' \<notin> set t"
    and "\<not> sublist ''_mat'' m" "CHR ''_'' \<notin> set t" "\<not> prefix ''mat'' t"
  shows "parse_name (''Mesh_'' @ m @ ''_mat_'' @ t @ ext) = [m, t]"
proof -
  have "parse_name (''Mesh_'' @ m @ ''_mat_'' @ t @ ext) = rsplit1 (m @ ''_'' @ t) (CHR ''_'')"
    by (simp only: parse_name_def strip_name_schema [OF assms])
  also have "\<dots> = [m, t]"
    using rsplit1_last [OF assms(5), of m] by simp
  finally show ?thesis .
qed

lemma selected_schema:
  "ext \<in> set EXTENSIONS \<Longrightarrow> endswith_any (''Mesh_'' @ m @ ''_mat_'' @ t @ ext) EXTENSIONS"
  unfolding endswith_any_suffix
  by (rule bexI [of _ ext]) (auto simp: suffix_def)

section \<open>The scan\<close>

lemma store_texture_of:
  "texture_of (store_texture lib folder file m t mats) k x =
     (if k = str_capitalize lib m \<and> x = t \<and> texture_of mats k x = None
      then Some (path_normcase lib (path_join lib folder file), True)
      else texture_of mats k x)"
  by (auto simp: store_texture_def setdefault_def texture_of_def update_conv' split: option.splits)

lemma store_include_of:
  "include_of (store_texture lib folder file m t mats) k =
     (if k = str_capitalize lib m \<and> include_of mats k = None then Some True else include_of mats k)"
  by (auto simp: store_texture_def setdefault_def include_of_def update_conv' split: option.splits)

lemma store_texture_present:
  "texture_of mats (str_capitalize lib m) t \<noteq> None \<Longrightarrow> store_texture lib folder file m t mats = mats"
  by (auto simp: store_texture_def setdefault_def texture_of_def update_triv split: option.splits)

lemma store_texture_distinct:
  "distinct (map fst mats) \<Longrightarrow> distinct (map fst (store_texture lib folder file m t mats))"
  by (auto simp: store_texture_def setdefault_def distinct_update split: option.splits)

lemma load_texture_kept:
  "texture_of mats k x = Some e \<Longrightarrow>
   texture_of (state_of (load_materials_data lib folder files mats)) k x = Some e"
proof (induction files arbitrary: mats)
  case Nil
  then show ?case by simp
next
  case (Cons f fs)
  show ?case
  proof (cases "endswith_any f EXTENSIONS")
    case False
    with Cons show ?thesis by simp
  next
    case sel: True
    show ?thesis
    proof (cases "\<exists>m t. parse_name f = [m, t]")
      case False
      with sel Cons.prems show ?thesis
        by (auto split: list.splits)
    next
      case True
      then obtain m t where mt: "parse_name f = [m, t]" by blast
      have "texture_of (store_texture lib folder f m t mats) k x = Some e"
        using Cons.prems by (simp add: store_texture_of)
      from Cons.IH [OF this] sel mt show ?thesis by simp
    qed
  qed
qed

lemma parse_name_cases:
  obtains (whole) "CHR ''_'' \<notin> set (strip_name f)" "parse_name f = [strip_name f]"
  | (split) m t where "CHR ''_'' \<in> set (strip_name f)" "parse_name f = [m, t]"
  by (cases "CHR ''_'' \<in> set (strip_name f)") (auto simp: parse_name_def rsplit1_def)

lemma load_skip:
  "\<not> endswith_any f EXTENSIONS \<Longrightarrow>
   load_materials_data lib folder (f # fs) mats = load_materials_data lib folder fs mats"
  by simp

lemma load_store:
  "endswith_any f EXTENSIONS \<Longrightarrow> parse_name f = [m, t] \<Longrightarrow>
   load_materials_data lib folder (f # fs) mats =
   load_materials_data lib folder fs (store_texture lib folder f m t mats)"
  by simp

lemma load_raise:
  "endswith_any f EXTENSIONS \<Longrightarrow> parse_name f = [s] \<Longrightarrow>
   load_materials_data lib folder (f # fs) mats = Raise ValueError mats"
  by simp

lemma load_cases:
  obtains (skip) "\<not> endswith_any f EXTENSIONS"
      "\<And>lib folder fs mats. load_materials_data lib folder (f # fs) mats = load_materials_data lib folder fs mats"
  | (raise) "endswith_any f EXTENSIONS" "CHR ''_'' \<notin> set (strip_name f)"
      "\<And>lib folder fs mats. load_materials_data lib folder (f # fs) mats = Raise ValueError mats"
  | (store) m t where "endswith_any f EXTENSIONS" "CHR ''_'' \<in> set (strip_name f)" "parse_name f = [m, t]"
      "\<And>lib folder fs mats. load_materials_data lib folder (f # fs) mats =
         load_materials_data lib folder fs (store_texture lib folder f m t mats)"
proof (cases "endswith_any f EXTENSIONS")
  case False
  then show ?thesis using skip load_skip by blast
next
  case True
  show ?thesis
  proof (cases f rule: parse_name_cases)
    case whole
    then show ?thesis using True raise load_raise by blast
  next
    case (split m t)
    then show ?thesis using True store [of m t] load_store by blast
  qed
qed

lemma load_include_kept:
  "include_of mats k = Some b \<Longrightarrow>
   include_of (state_of (load_materials_data lib folder files mats)) k = Some b"
proof (induction files arbitrary: mats)
  case Nil
  then show ?case by simp
next
  case (Cons f fs)
  show ?case
  proof (cases f rule: load_cases)
    case skip
    then show ?thesis using Cons by simp
  next
    case raise
    then show ?thesis using Cons.prems by simp
  next
    case (store m t)
    have "include_of (store_texture lib folder f m t mats) k = Some b"
      using Cons.prems by (simp add: store_include_of)
    from Cons.IH [OF this] show ?thesis by (simp only: store(4))
  qed
qed

lemma load_distinct:
  "distinct (map fst mats) \<Longrightarrow>
   distinct (map fst (state_of (load_materials_data lib folder files mats)))"
proof (induction files arbitrary: mats)
  case Nil
  then show ?case by simp
next
  case (Cons f fs)
  show ?case
  proof (cases f rule: load_cases)
    case skip
    then show ?thesis using Cons by simp
  next
    case raise
    then show ?thesis using Cons.prems by simp
  next
    case (store m t)
    from Cons.IH [OF store_texture_distinct [OF Cons.prems]] show ?thesis
      by (simp only: store(4))
  qed
qed

lemma load_append:
  "load_materials_data lib folder (pre @ post) mats =
   and_then (load_materials_data lib folder pre mats) (\<lambda>_. load_materials_data lib folder post)"
proof (induction pre arbitrary: mats)
  case Nil
  then show ?case by simp
next
  case (Cons f fs)
  show ?case
  proof (cases f rule: load_cases)
    case skip
    then show ?thesis using Cons by simp
  next
    case raise
    then show ?thesis by simp
  next
    case (store m t)
    then show ?thesis using Cons by simp
  qed
qed

lemma load_rescan_unchanged:
  "(\<And>k x. texture_of (state_of (load_materials_data lib folder files mats)) k x \<noteq> None
      \<Longrightarrow> texture_of mats' k x \<noteq> None) \<Longrightarrow>
   load_materials_data lib folder files mats' =
     (case load_materials_data lib folder files mats of
        Ok u s \<Rightarrow> Ok u mats' | Raise e s \<Rightarrow> Raise e mats')"
proof (induction files arbitrary: mats)
  case Nil
  then show ?case by simp
next
  case (Cons f fs)
  show ?case
  proof (cases f rule: load_cases)
    case skip
    then show ?thesis using Cons by simp
  next
    case raise
    then show ?thesis by simp
  next
    case (store m t)
    have "texture_of (store_texture lib folder f m t mats) (str_capitalize lib m) t \<noteq> None"
      by (auto simp: store_texture_of)
    then obtain e where "texture_of (store_texture lib folder f m t mats) (str_capitalize lib m) t = Some e"
      by blast
    then have "texture_of (state_of (load_materials_data lib folder fs (store_texture lib folder f m t mats))) (str_capitalize lib m) t = Some e"
      by (rule load_texture_kept)
    then have "texture_of mats' (str_capitalize lib m) t \<noteq> None"
      using Cons.prems [of "str_capitalize lib m" t] by (simp only: store(4)) simp
    then have same: "store_texture lib folder f m t mats' = mats'"
      by (rule store_texture_present)
    have "load_materials_data lib folder fs mats' =
       (case load_materials_data lib folder fs (store_texture lib folder f m t mats) of
          Ok u s \<Rightarrow> Ok u mats' | Raise e s \<Rightarrow> Raise e mats')"
      by (rule Cons.IH) (use Cons.prems in \<open>simp only: store(4)\<close>)
    then show ?thesis by (simp only: store(4) same)
  qed
qed

lemma load_rescan:
  "load_materials_data lib folder files (state_of (load_materials_data lib folder files mats)) =
   load_materials_data lib folder files mats"
proof -
  have "load_materials_data lib folder files (state_of (load_materials_data lib folder files mats)) =
     (case load_materials_data lib folder files mats of
        Ok u s \<Rightarrow> Ok u (state_of (load_materials_data lib folder files mats))
      | Raise e s \<Rightarrow> Raise e (state_of (load_materials_data lib folder files mats)))"
    by (rule load_rescan_unchanged) simp
  then show ?thesis
    by (cases "load_materials_data lib folder files mats") simp_all
qed

lemma load_texture_absent:
  "texture_of mats k x = None \<Longrightarrow>
   (\<And>g m. g \<in> set files \<Longrightarrow> endswith_any g EXTENSIONS \<Longrightarrow> parse_name g = [m, x] \<Longrightarrow> str_capitalize lib m \<noteq> k) \<Longrightarrow>
   texture_of (state_of (load_materials_data lib folder files mats)) k x = None"
proof (induction files arbitrary: mats)
  case Nil
  then show ?case by simp
next
  case (Cons f fs)
  show ?case
  proof (cases f rule: load_cases)
    case skip
    have "texture_of (state_of (load_materials_data lib folder fs mats)) k x = None"
      by (rule Cons.IH [OF Cons.prems(1)]) (use Cons.prems(2) in auto)
    then show ?thesis by (simp only: skip(2))
  next
    case raise
    then show ?thesis using Cons.prems by simp
  next
    case (store m t)
    have "\<not> (str_capitalize lib m = k \<and> t = x)"
      using Cons.prems(2) [of f m] store(1,3) by auto
    then have "texture_of (store_texture lib folder f m t mats) k x = None"
      using Cons.prems(1) by (auto simp: store_texture_of)
    then have "texture_of (state_of (load_materials_data lib folder fs (store_texture lib folder f m t mats))) k x = None"
      by (rule Cons.IH) (use Cons.prems(2) in auto)
    then show ?thesis by (simp only: store(4))
  qed
qed

lemma load_outcome:
  "raised (load_materials_data lib folder files mats) =
     (if \<forall>f \<in> set files. endswith_any f EXTENSIONS \<longrightarrow> CHR ''_'' \<in> set (strip_name f)
      then None else Some ValueError)"
proof (induction files arbitrary: mats)
  case Nil
  then show ?case by simp
next
  case (Cons f fs)
  show ?case
  proof (cases f rule: load_cases)
    case skip
    then show ?thesis using Cons by simp
  next
    case raise
    then show ?thesis by auto
  next
    case (store m t)
    then show ?thesis using Cons by simp
  qed
qed

section \<open>Claims about the scan\<close>

text \<open>Evaluating the scan on given names.\<close>

lemmas scan_eval = endswith_any_def endswith_def EXTENSIONS_def parse_name_def strip_name_def
  splitext_def rfind_def removeprefix_def PREFIX_def SUFFIX_def rsplit1_def store_texture_def
  setdefault_def posix_ascii_def upper_def lower_def ascii_lowercase_def ascii_uppercase_def
  texture_of_def include_of_def

text \<open>
  C5, as the code has it. The scan parses a file exactly when its name ends in one of
  \<open>.png\<close>, \<open>.bmp\<close>, \<open>.jpeg\<close>, \<open>.jpg\<close>, compared character by character (so in lower
  case only); every other name is passed over and the scan goes on with the next one.
\<close>

theorem scan_selects_by_suffix:
  "load_materials_data lib folder (f # fs) mats =
     (if \<exists>stem. f \<in> {stem @ ''.png'', stem @ ''.bmp'', stem @ ''.jpeg'', stem @ ''.jpg''}
      then (case parse_name f of
              [m, t] \<Rightarrow> load_materials_data lib folder fs (store_texture lib folder f m t mats)
            | _ \<Rightarrow> Raise ValueError mats)
      else load_materials_data lib folder fs mats)"
proof -
  have "endswith_any f EXTENSIONS \<longleftrightarrow>
        (\<exists>stem. f \<in> {stem @ ''.png'', stem @ ''.bmp'', stem @ ''.jpeg'', stem @ ''.jpg''})"
    unfolding endswith_any_suffix by (auto simp: EXTENSIONS_def suffix_def)
  then show ?thesis by simp
qed

theorem scan_selects_by_suffix_witness:
  "load_materials_data posix_ascii ''/tex'' [''notes.txt'', ''Mesh_a_mat_Normal.jpeg''] [] =
     Ok () [(''A'', [(''Normal'', ''/tex/Mesh_a_mat_Normal.jpeg'', True)], True)]"
  using scan_selects_by_suffix [of posix_ascii "''/tex''" "''notes.txt''" "[''Mesh_a_mat_Normal.jpeg'']" "[]"]
  by (simp add: scan_eval)

text \<open>
  C5 as stated fails: a name that ends in \<open>.PNG\<close> is not selected, and the scan of a
  folder that holds only that file leaves the catalog empty.
\<close>

theorem scan_upper_case_extension_counterexample:
  "\<not> endswith_any ''Mesh_Rock_mat_BaseColor.PNG'' EXTENSIONS \<and>
   load_materials_data posix_ascii ''/tex'' [''Mesh_Rock_mat_BaseColor.PNG''] [] = Ok () []"
  by (simp add: scan_eval)

text \<open>
  C2, as the code has it. A selected file whose name, once the extension, the prefix and
  every \<open>_mat\<close> are stripped, holds no underscore makes the scan raise \<open>ValueError\<close>
  at that file: what the files before it stored stays in the catalog and no file after
  it is scanned. The scan ends without an exception exactly when no selected file is of
  that kind, and \<open>ValueError\<close> is the only exception it raises.
\<close>

theorem scan_raises_on_unsplit_name:
  "(endswith_any f EXTENSIONS \<and> CHR ''_'' \<notin> set (strip_name f) \<and>
    load_materials_data lib folder pre mats = Ok () mats1 \<longrightarrow>
      load_materials_data lib folder (pre @ f # post) mats = Raise ValueError mats1) \<and>
   (raised (load_materials_data lib folder files mats) =
      (if \<forall>g \<in> set files. endswith_any g EXTENSIONS \<longrightarrow> CHR ''_'' \<in> set (strip_name g)
       then None else Some ValueError))"
proof (intro conjI impI)
  assume a: "endswith_any f EXTENSIONS \<and> CHR ''_'' \<notin> set (strip_name f) \<and>
    load_materials_data lib folder pre mats = Ok () mats1"
  then have "parse_name f = [strip_name f]"
    by (simp add: parse_name_def rsplit1_none)
  with a have "load_materials_data lib folder (f # post) mats1 = Raise ValueError mats1"
    using load_raise by blast
  with a show "load_materials_data lib folder (pre @ f # post) mats = Raise ValueError mats1"
    by (simp add: load_append)
next
  show "raised (load_materials_data lib folder files mats) =
      (if \<forall>g \<in> set files. endswith_any g EXTENSIONS \<longrightarrow> CHR ''_'' \<in> set (strip_name g)
       then None else Some ValueError)"
    by (rule load_outcome)
qed

theorem scan_raises_on_unsplit_name_witness:
  "endswith_any ''foo.png'' EXTENSIONS \<and> CHR ''_'' \<notin> set (strip_name ''foo.png'') \<and>
   load_materials_data posix_ascii ''/tex'' [''Mesh_a_mat_Normal.jpg''] [] =
     Ok () [(''A'', [(''Normal'', ''/tex/Mesh_a_mat_Normal.jpg'', True)], True)] \<and>
   load_materials_data posix_ascii ''/tex''
     ([''Mesh_a_mat_Normal.jpg''] @ ''foo.png'' # [''Mesh_b_mat_Normal.jpg'']) [] =
     Raise ValueError [(''A'', [(''Normal'', ''/tex/Mesh_a_mat_Normal.jpg'', True)], True)]"
proof -
  have h: "endswith_any ''foo.png'' EXTENSIONS \<and> CHR ''_'' \<notin> set (strip_name ''foo.png'') \<and>
   load_materials_data posix_ascii ''/tex'' [''Mesh_a_mat_Normal.jpg''] [] =
     Ok () [(''A'', [(''Normal'', ''/tex/Mesh_a_mat_Normal.jpg'', True)], True)]"
    by (simp add: scan_eval)
  from h scan_raises_on_unsplit_name [of "''foo.png''" posix_ascii "''/tex''" "[''Mesh_a_mat_Normal.jpg'']" "[]"
      "[(''A'', [(''Normal'', ''/tex/Mesh_a_mat_Normal.jpg'', True)], True)]" "[''Mesh_b_mat_Normal.jpg'']"]
  show ?thesis by blast
qed

text \<open>
  C2 as stated fails: \<open>foo.png\<close> is not skipped; the scan raises and the file after it
  never reaches the catalog.
\<close>

theorem scan_aborts_counterexample:
  "load_materials_data posix_ascii ''/tex'' [''foo.png'', ''Mesh_b_mat_Normal.jpeg''] [] =
     Raise ValueError []"
  by (simp add: scan_eval)

text \<open>
  C4. Whatever the catalog and the directory, a scan leaves every texture entry that was
  there (its path and its include flag) and every material's include flag as they were,
  and the keys stay unique. A second scan of the same names changes nothing at all: if
  the catalog still has every texture key that a scan of these names stores, with
  whatever flags, the scan returns the catalog as it was.
\<close>

theorem rescan_first_write_wins:
  "(texture_of mats k x = Some e \<longrightarrow>
      texture_of (state_of (load_materials_data lib folder files mats)) k x = Some e) \<and>
   (include_of mats k = Some b \<longrightarrow>
      include_of (state_of (load_materials_data lib folder files mats)) k = Some b) \<and>
   (distinct (map fst mats) \<longrightarrow>
      distinct (map fst (state_of (load_materials_data lib folder files mats)))) \<and>
   ((\<forall>k x. texture_of (state_of (load_materials_data lib folder files mats0)) k x \<noteq> None \<longrightarrow>
            texture_of mats k x \<noteq> None) \<longrightarrow>
      state_of (load_materials_data lib folder files mats) = mats)"
proof (intro conjI impI)
  assume "texture_of mats k x = Some e"
  then show "texture_of (state_of (load_materials_data lib folder files mats)) k x = Some e"
    by (rule load_texture_kept)
next
  assume "include_of mats k = Some b"
  then show "include_of (state_of (load_materials_data lib folder files mats)) k = Some b"
    by (rule load_include_kept)
next
  assume "distinct (map fst mats)"
  then show "distinct (map fst (state_of (load_materials_data lib folder files mats)))"
    by (rule load_distinct)
next
  assume a: "\<forall>k x. texture_of (state_of (load_materials_data lib folder files mats0)) k x \<noteq> None \<longrightarrow>
            texture_of mats k x \<noteq> None"
  have "load_materials_data lib folder files mats =
     (case load_materials_data lib folder files mats0 of
        Ok u s \<Rightarrow> Ok u mats | Raise e s \<Rightarrow> Raise e mats)"
    by (rule load_rescan_unchanged) (use a in blast)
  then show "state_of (load_materials_data lib folder files mats) = mats"
    by (cases "load_materials_data lib folder files mats0") simp_all
qed

theorem rescan_first_write_wins_witness:
  "texture_of rock_catalog ''Rock'' ''BaseColor'' = Some (''/tex/Mesh_rock_mat_BaseColor.png'', False) \<and>
   texture_of (state_of (load_materials_data posix_ascii ''/tex'' [''Mesh_rock_mat_BaseColor.png''] rock_catalog))
     ''Rock'' ''BaseColor'' = Some (''/tex/Mesh_rock_mat_BaseColor.png'', False) \<and>
   include_of rock_catalog ''Rock'' = Some False \<and>
   include_of (state_of (load_materials_data posix_ascii ''/tex'' [''Mesh_rock_mat_BaseColor.png''] rock_catalog))
     ''Rock'' = Some False \<and>
   distinct (map fst rock_catalog) \<and>
   distinct (map fst (state_of (load_materials_data posix_ascii ''/tex'' [''Mesh_rock_mat_BaseColor.png''] rock_catalog))) \<and>
   state_of (load_materials_data posix_ascii ''/tex'' [''Mesh_rock_mat_BaseColor.png''] rock_catalog) = rock_catalog"
proof -
  have first: "state_of (load_materials_data posix_ascii ''/tex'' [''Mesh_rock_mat_BaseColor.png''] []) =
      [(''Rock'', [(''BaseColor'', ''/tex/Mesh_rock_mat_BaseColor.png'', True)], True)]"
    by (simp add: scan_eval)
  have h1: "texture_of rock_catalog ''Rock'' ''BaseColor'' = Some (''/tex/Mesh_rock_mat_BaseColor.png'', False)"
    and h2: "include_of rock_catalog ''Rock'' = Some False"
    and h3: "distinct (map fst rock_catalog)"
    by (simp_all add: rock_catalog_def texture_of_def include_of_def)
  have h4: "\<forall>k x. texture_of (state_of (load_materials_data posix_ascii ''/tex'' [''Mesh_rock_mat_BaseColor.png''] [])) k x \<noteq> None \<longrightarrow>
            texture_of rock_catalog k x \<noteq> None"
    unfolding first by (auto simp: rock_catalog_def texture_of_def split: if_splits)
  from h1 h2 h3 h4
    rescan_first_write_wins [of rock_catalog "''Rock''" "''BaseColor''" "(''/tex/Mesh_rock_mat_BaseColor.png'', False)"
      posix_ascii "''/tex''" "[''Mesh_rock_mat_BaseColor.png'']" False "[]"]
  show ?thesis by blast
qed

text \<open>
  C1, as the code has it. Take a name \<open>Mesh_M_mat_T.ext\<close> of a directory entry (no \<open>/\<close>
  in it) with one of the four extensions, where \<open>M\<close> holds no \<open>_mat\<close> and \<open>T\<close> holds no
  underscore and does not start with \<open>mat\<close>. If the scan gets through the files listed
  before it, then, whatever the files after it do, the catalog has the key
  \<open>str.capitalize(M)\<close> and under it a texture keyed \<open>T\<close>. The stored path is the
  normalised join of the folder and this name, with the flag true, when the first write
  is this file's: the catalog had no such texture and no file listed before it gives the
  same key and token. For an \<open>M\<close> of ASCII characters, \<open>str.capitalize\<close> being on ASCII
  what \<open>ascii_capitalize\<close> is, the key is \<open>M\<close> with its first letter in upper case and
  all the others in lower case.
\<close>

theorem scan_schema_file:
  assumes "ext \<in> set EXTENSIONS"
    and "CHR ''/'' \<notin> set m" and "CHR ''/'' \<notin> set t"
    and "\<not> sublist ''_mat'' m" and "CHR ''_'' \<notin> set t" and "\<not> prefix ''mat'' t"
    and "load_materials_data lib folder pre mats = Ok () mats1"
    and "mats' = state_of (load_materials_data lib folder
                   (pre @ (''Mesh_'' @ m @ ''_mat_'' @ t @ ext) # post) mats)"
  shows "include_of mats' (str_capitalize lib m) \<noteq> None \<and>
         texture_of mats' (str_capitalize lib m) t \<noteq> None \<and>
         (texture_of mats (str_capitalize lib m) t = None \<and>
          (\<forall>g \<in> set pre. \<forall>m'. endswith_any g EXTENSIONS \<and> parse_name g = [m', t] \<longrightarrow>
                                str_capitalize lib m' \<noteq> str_capitalize lib m) \<longrightarrow>
            texture_of mats' (str_capitalize lib m) t =
              Some (path_normcase lib (path_join lib folder (''Mesh_'' @ m @ ''_mat_'' @ t @ ext)), True)) \<and>
         (list_all is_ascii m \<and>
          (\<forall>s. list_all is_ascii s \<longrightarrow> str_capitalize lib s = ascii_capitalize s) \<longrightarrow>
            include_of mats' (ascii_capitalize m) \<noteq> None \<and>
            texture_of mats' (ascii_capitalize m) t \<noteq> None)"
proof -
  let ?f = "''Mesh_'' @ m @ ''_mat_'' @ t @ ext"
  let ?p = "(path_normcase lib (path_join lib folder ?f), True)"
  have sel: "endswith_any ?f EXTENSIONS"
    using assms(1) by (rule selected_schema)
  have parse: "parse_name ?f = [m, t]"
    using assms(1-6) by (rule parse_name_schema)
  let ?mats2 = "store_texture lib folder ?f m t mats1"
  have "load_materials_data lib folder (pre @ ?f # post) mats =
        load_materials_data lib folder post ?mats2"
    using assms(7) load_store [OF sel parse] by (simp add: load_append)
  then have mats': "mats' = state_of (load_materials_data lib folder post ?mats2)"
    using assms(8) by simp
  have "include_of ?mats2 (str_capitalize lib m) \<noteq> None"
    by (auto simp: store_include_of)
  then have inc: "include_of mats' (str_capitalize lib m) \<noteq> None"
    unfolding mats' using load_include_kept by fastforce
  have "texture_of ?mats2 (str_capitalize lib m) t \<noteq> None"
    by (auto simp: store_texture_of)
  then have tex: "texture_of mats' (str_capitalize lib m) t \<noteq> None"
    unfolding mats' using load_texture_kept by fastforce
  have first: "texture_of mats' (str_capitalize lib m) t = Some ?p"
    if none: "texture_of mats (str_capitalize lib m) t = None"
      and others: "\<forall>g \<in> set pre. \<forall>m'. endswith_any g EXTENSIONS \<and> parse_name g = [m', t] \<longrightarrow>
                                str_capitalize lib m' \<noteq> str_capitalize lib m"
  proof -
    have "texture_of (state_of (load_materials_data lib folder pre mats)) (str_capitalize lib m) t = None"
      using none by (rule load_texture_absent) (use others in blast)
    then have "texture_of mats1 (str_capitalize lib m) t = None"
      by (simp add: assms(7))
    then have "texture_of ?mats2 (str_capitalize lib m) t = Some ?p"
      by (simp add: store_texture_of)
    then show ?thesis
      unfolding mats' by (rule load_texture_kept)
  qed
  have ascii: "include_of mats' (ascii_capitalize m) \<noteq> None \<and>
               texture_of mats' (ascii_capitalize m) t \<noteq> None"
    if "list_all is_ascii m"
      and "\<forall>s. list_all is_ascii s \<longrightarrow> str_capitalize lib s = ascii_capitalize s"
  proof -
    from that have "str_capitalize lib m = ascii_capitalize m" by blast
    with inc tex show ?thesis by simp
  qed
  from inc tex first ascii show ?thesis by blast
qed

theorem scan_schema_file_witness:
  "texture_of (state_of (load_materials_data posix_ascii ''/tex''
       ([''notes.txt''] @ (''Mesh_'' @ ''redRock'' @ ''_mat_'' @ ''BaseColor'' @ ''.png'') # [''foo.png'']) []))
     (ascii_capitalize ''redRock'') ''BaseColor'' = Some (''/tex/Mesh_redRock_mat_BaseColor.png'', True) \<and>
   ascii_capitalize ''redRock'' = ''Redrock'' \<and>
   list_all is_ascii ''redRock'' \<and>
   raised (load_materials_data posix_ascii ''/tex''
       ([''notes.txt''] @ (''Mesh_'' @ ''redRock'' @ ''_mat_'' @ ''BaseColor'' @ ''.png'') # [''foo.png'']) []) =
     Some ValueError"
proof -
  let ?files = "[''notes.txt''] @ (''Mesh_'' @ ''redRock'' @ ''_mat_'' @ ''BaseColor'' @ ''.png'') # [''foo.png'']"
  have h1: "''.png'' \<in> set EXTENSIONS" by (simp add: EXTENSIONS_def)
  have h2: "CHR ''/'' \<notin> set ''redRock''" "CHR ''/'' \<notin> set ''BaseColor''"
    "\<not> sublist ''_mat'' ''redRock''" "CHR ''_'' \<notin> set ''BaseColor''" "\<not> prefix ''mat'' ''BaseColor''"
    by (simp_all add: sublist_Cons_right)
  have h3: "load_materials_data posix_ascii ''/tex'' [''notes.txt''] [] = Ok () []"
    by (simp add: scan_eval)
  have c: "str_capitalize posix_ascii ''redRock'' = ''Redrock''"
    and c': "ascii_capitalize ''redRock'' = ''Redrock''"
    by (simp_all add: scan_eval)
  have h4: "texture_of [] (str_capitalize posix_ascii ''redRock'') ''BaseColor'' = None"
    by (simp add: texture_of_def)
  have h5: "\<forall>g \<in> set [''notes.txt'']. \<forall>m'. endswith_any g EXTENSIONS \<and> parse_name g = [m', ''BaseColor''] \<longrightarrow>
              str_capitalize posix_ascii m' \<noteq> str_capitalize posix_ascii ''redRock''"
    by (simp add: scan_eval)
  have h6: "list_all is_ascii ''redRock''"
    by (simp add: is_ascii_def)
  have p: "path_normcase posix_ascii (path_join posix_ascii ''/tex'' (''Mesh_'' @ ''redRock'' @ ''_mat_'' @ ''BaseColor'' @ ''.png''))
      = ''/tex/Mesh_redRock_mat_BaseColor.png''"
    by (simp add: posix_ascii_def endswith_def)
  have r: "raised (load_materials_data posix_ascii ''/tex'' ?files []) = Some ValueError"
    by (simp add: scan_eval)
  from scan_schema_file [OF h1 h2 h3 refl, of "[''foo.png'']"] h4 h5
  have "texture_of (state_of (load_materials_data posix_ascii ''/tex'' ?files []))
          (str_capitalize posix_ascii ''redRock'') ''BaseColor'' =
     Some (path_normcase posix_ascii (path_join posix_ascii ''/tex'' (''Mesh_'' @ ''redRock'' @ ''_mat_'' @ ''BaseColor'' @ ''.png'')), True)"
    by blast
  then show ?thesis
    unfolding p c using c' h6 r by simp
qed

text \<open>
  C1 as stated fails: the letters after the first do not stay as they are. The file
  \<open>Mesh_redRock_mat_BaseColor.png\<close>, an ASCII name, is stored under \<open>Redrock\<close> and the
  catalog has no key \<open>RedRock\<close>.
\<close>

theorem scan_capitalize_counterexample:
  "load_materials_data posix_ascii ''/tex'' [''Mesh_redRock_mat_BaseColor.png''] [] =
     Ok () [(''Redrock'', [(''BaseColor'', ''/tex/Mesh_redRock_mat_BaseColor.png'', True)], True)] \<and>
   map_of (state_of (load_materials_data posix_ascii ''/tex'' [''Mesh_redRock_mat_BaseColor.png''] [])) ''RedRock'' = None"
  by (simp add: scan_eval)

section \<open>The calls of a build\<close>

lemma emitsI: "calls (state_of r) = calls w @ new \<Longrightarrow> list_all P new \<Longrightarrow> emits P w r"
  by (simp add: emits_def new_calls_def)

lemma emitsD:
  assumes "emits P w r"
  shows "calls (state_of r) = calls w @ new_calls w r" and "list_all P (new_calls w r)"
proof -
  have "take (length (calls w)) (calls (state_of r)) = calls w"
    using assms by (simp add: emits_def)
  then show "calls (state_of r) = calls w @ new_calls w r"
    unfolding new_calls_def by (metis append_take_drop_id)
  show "list_all P (new_calls w r)" using assms by (simp add: emits_def)
qed

lemma emits_Ok: "emits P w (Ok a w)"
  by (rule emitsI [of _ _ "[]"]) simp_all

lemma emits_Raise: "emits P w (Raise e w)"
  by (rule emitsI [of _ _ "[]"]) simp_all

lemma emits_and_then:
  assumes "emits P w m" and "\<And>a w1. m = Ok a w1 \<Longrightarrow> emits P w1 (f a w1)"
  shows "emits P w (and_then m f)"
proof (cases m)
  case (Ok a w1)
  from assms(1) Ok have 1: "calls w1 = calls w @ new_calls w m" "list_all P (new_calls w m)"
    using emitsD [of P w m] by simp_all
  from assms(2) [OF Ok] have 2: "calls (state_of (f a w1)) = calls w1 @ new_calls w1 (f a w1)"
    "list_all P (new_calls w1 (f a w1))"
    using emitsD by blast+
  show ?thesis
    by (rule emitsI [of _ _ "new_calls w m @ new_calls w1 (f a w1)"]) (use Ok 1 2 in simp_all)
next
  case (Raise e w1)
  with assms(1) show ?thesis by (simp add: emits_def new_calls_def)
qed

lemma emits_and_then_do:
  assumes "emits P w (m w)" and "\<And>a w1. m w = Ok a w1 \<Longrightarrow> emits P w1 (f a w1)"
  shows "emits P w (and_then_do m f w)"
  unfolding and_then_do_def using assms by (rule emits_and_then)

lemma emits_shadingNode: "P (ShadingNode ty nm flag) \<Longrightarrow> emits P w (shadingNode H ty nm flag w)"
  by (rule emitsI [of _ _ "[ShadingNode ty nm flag]"])
     (simp_all add: shadingNode_def issue_def split: option.splits)

lemma emits_command: "P c \<Longrightarrow> emits P w (command H c w)"
  by (rule emitsI [of _ _ "[c]"]) (simp_all add: command_def issue_def)

lemma emits_ls_sl: "P Ls_sl \<Longrightarrow> emits P w (ls_sl H w)"
  by (rule emitsI [of _ _ "[Ls_sl]"]) (simp_all add: ls_sl_def issue_def split: option.splits)

lemma emits_py_print: "emits P w (py_print s w)"
  by (rule emitsI [of _ _ "[]"]) (simp_all add: py_print_def)

lemma emits_connect_simple_binds:
  "(\<And>a b f. P (ConnectAttr a b f)) \<Longrightarrow> emits P w (connect_simple_binds H nt nf cs w)"
proof (induction cs arbitrary: w)
  case Nil
  show ?case by (simp add: emits_Ok)
next
  case (Cons c cs)
  show ?case
    unfolding connect_simple_binds.simps
    by (rule emits_and_then) (use Cons in \<open>auto intro: emits_command\<close>)
qed

lemma emits_connect_unique_binds:
  "(\<And>a b f. P (ConnectAttr a b f)) \<Longrightarrow> emits P w (connect_unique_binds H nt nf cs w)"
proof (induction cs arbitrary: w)
  case Nil
  show ?case by (simp add: emits_Ok)
next
  case (Cons c cs)
  obtain a b where c: "c = (a, b)" by (cases c)
  show ?case
    unfolding c connect_unique_binds.simps
    by (rule emits_and_then) (use Cons in \<open>auto intro: emits_command\<close>)
qed

lemma emits_create_texture_node:
  assumes "\<And>nm flag. P (ShadingNode ''file'' nm flag)"
    and "\<And>nm flag. P (ShadingNode ''place2dTexture'' nm flag)"
    and "\<And>a b f. P (ConnectAttr a b f)"
    and "\<And>a v. P (SetAttrString a v)"
  shows "emits P w (create_texture_node H name file isRaw w)"
  unfolding create_texture_node_def
  by (intro emits_and_then emits_and_then_do emits_shadingNode emits_command
        emits_connect_simple_binds emits_connect_unique_binds assms)
     (auto intro: emits_command emits_Ok assms)

lemma build_call_simps:
  "build_call flt names (ShadingNode ''file'' nm flag)"
  "build_call flt names (ShadingNode ''place2dTexture'' nm flag)"
  "build_call flt names (ConnectAttr a b f)"
  "build_call flt names (SetAttrString a v)"
  "build_call flt names (SetAttrInt a n)"
  "build_call flt names (Sets s)"
  "build_call flt names Ls_sl"
  by (simp_all add: build_call_def)

lemma build_call_shader: "m \<in> names \<Longrightarrow> build_call flt names (ShadingNode ''RedshiftMaterial'' m asShader)"
  by (simp add: build_call_def)

lemma build_call_wire:
  "k \<in> flt \<Longrightarrow> build_call flt names (DefaultNavigation src (node @ ''.'' @ TexType_value k))"
  unfolding build_call_def call.case endswith_suffix
  by (rule bexI [of _ k]) (simp_all add: suffix_def)

lemma build_call_wire_Cons:
  "k \<in> flt \<Longrightarrow> build_call flt names (DefaultNavigation src (node @ CHR ''.'' # TexType_value k))"
  using build_call_wire [of k flt names src node] by simp

lemma emits_fix_connection:
  "emits (build_call flt names) w (fix_connection H node k w)"
proof -
  have sel: "emits (build_call flt names) w1
      (case sel of [] \<Rightarrow> Raise IndexError w1
       | bump_node # x \<Rightarrow> command H (SetAttrInt (bump_node @ ''.inputType'') 1) w1)" for sel w1
    by (cases sel) (simp_all add: emits_Raise emits_command build_call_simps)
  have sel': "(case sel of [] \<Rightarrow> Raise IndexError
       | bump_node # x \<Rightarrow> command H (SetAttrInt (bump_node @ ''.inputType'') 1)) w1 =
      (case sel of [] \<Rightarrow> Raise IndexError w1
       | bump_node # x \<Rightarrow> command H (SetAttrInt (bump_node @ ''.inputType'') 1) w1)" for sel w1
    by (cases sel) simp_all
  show ?thesis
    unfolding fix_connection_def
    by (auto intro!: emits_and_then_do emits_ls_sl emits_command emits_Ok
        simp: build_call_simps sel sel')
qed

lemma emits_import_texture:
  "emits (build_call (texture_type_filter self) names) w (import_texture H self mname mnode item w)"
proof -
  obtain tex path inc where item: "item = (tex, path, inc)" by (cases item)
  show ?thesis
  proof (cases "inc")
    case False
    then show ?thesis by (simp add: item import_texture_def emits_Ok)
  next
    case True
    show ?thesis
    proof (cases "TexType_getitem tex")
      case None
      with True show ?thesis by (simp add: item import_texture_def emits_py_print)
    next
      case (Some k)
      show ?thesis
      proof (cases "k \<in> texture_type_filter self")
        case False
        with True Some show ?thesis by (simp add: item import_texture_def emits_Ok)
      next
        case k: True
        have "emits (build_call (texture_type_filter self) names) w
           (and_then_do
             (create_texture_node H (mname @ ''_'' @ TexType_name k) path (k \<noteq> BaseColor))
             (\<lambda>(node_file, node_tex).
                and_then_do
                  (command H (DefaultNavigation node_file (mnode @ ''.'' @ TexType_value k)))
                  (\<lambda>_. fix_connection H mnode k)) w)"
          by (intro emits_and_then_do emits_create_texture_node)
             (auto intro!: emits_and_then_do emits_command emits_fix_connection
                simp: build_call_simps build_call_wire_Cons [OF k])
        with True Some k show ?thesis by (simp add: item import_texture_def)
      qed
    qed
  qed
qed

lemma emits_import_textures:
  "emits (build_call (texture_type_filter self) names) w (import_textures H self mname mnode texs w)"
proof (induction texs arbitrary: w)
  case Nil
  show ?case by (simp add: emits_Ok)
next
  case (Cons item texs)
  show ?case
    unfolding import_textures.simps
    by (rule emits_and_then) (auto intro: emits_import_texture Cons)
qed

lemma emits_import_loaded_material:
  assumes "m \<in> names"
  shows "emits (build_call (texture_type_filter self) names) w (import_loaded_material H self m w)"
proof -
  have tail: "emits (build_call (texture_type_filter self) names) w1
      ((case map_of (loaded_mats self) m of None \<Rightarrow> Raise (KeyError m)
        | Some entry \<Rightarrow> import_textures H self m node (fst entry)) w1)" for node w1
    by (cases "map_of (loaded_mats self) m") (simp_all add: emits_Raise emits_import_textures)
  show ?thesis
    unfolding import_loaded_material_def
    by (intro emits_and_then_do emits_shadingNode emits_command tail
          build_call_shader assms build_call_simps)
qed

lemma included_materials_Cons:
  "included_materials ((m, entry) # items) =
     (if snd entry then m # included_materials items else included_materials items)"
  by (simp add: included_materials_def)

lemma emits_import_materials:
  "set (included_materials items) \<subseteq> names \<Longrightarrow>
   emits (build_call (texture_type_filter self) names) w (import_materials H self items w)"
proof (induction items arbitrary: w)
  case Nil
  show ?case by (simp add: emits_Ok)
next
  case (Cons item items)
  obtain m entry where item: "item = (m, entry)" by (cases item)
  have rest: "set (included_materials items) \<subseteq> names"
    using Cons.prems by (simp add: item included_materials_Cons split: if_splits)
  show ?case
  proof (cases "snd entry")
    case False
    then show ?thesis using Cons.IH [OF rest] by (simp add: item)
  next
    case True
    then have "m \<in> names" using Cons.prems by (simp add: item included_materials_Cons)
    then show ?thesis
      unfolding item import_materials.simps using True
      by (auto intro!: emits_and_then emits_import_loaded_material Cons.IH [OF rest])
  qed
qed

lemma build_each_included:
  "import_materials H self items w = build_each H self (included_materials items) w"
proof (induction items arbitrary: w)
  case Nil
  show ?case by (simp add: included_materials_def)
next
  case (Cons item items)
  obtain m entry where item: "item = (m, entry)" by (cases item)
  have "import_materials H self items = build_each H self (included_materials items)"
    using Cons.IH by blast
  then show ?case by (simp add: item included_materials_Cons)
qed

lemma import_materials_append:
  "import_materials H self (pre @ post) w =
   and_then (import_materials H self pre w) (\<lambda>_. import_materials H self post)"
proof (induction pre arbitrary: w)
  case Nil
  show ?case by simp
next
  case (Cons item pre)
  obtain m entry where item: "item = (m, entry)" by (cases item)
  show ?case
  proof (cases "snd entry")
    case False
    then show ?thesis using Cons by (simp add: item)
  next
    case True
    show ?thesis
      by (cases "import_loaded_material H self m w") (simp_all add: item True Cons)
  qed
qed

section \<open>Claims about the build\<close>

text \<open>Evaluating a build on a given host.\<close>

lemmas build_eval = import_all_loaded_materials_def import_loaded_material_def and_then_do_def
  shadingNode_def command_def ls_sl_def py_print_def issue_def echo_host_def refusing_host_def
  empty_world_def import_texture_def create_texture_node_def fix_connection_def
  FILE_NODE_SIMPLE_BINDS_def FILE_NODE_UNIQUE_BINDS_def TexType_getitem_def TexType_members_def
  MatImporter_init_def new_calls_def

text \<open>
  C3, as the code has it. When a host call fails while one material is built, the
  exception leaves \<open>import_all_loaded_materials\<close>: the materials before it were built,
  the world is the one the failed call left, and no later material is processed.
\<close>

theorem import_all_stops_at_failure:
  assumes "loaded_mats self = pre @ (m, entry) # post" and "snd entry"
    and "import_materials H self pre w = Ok () w1"
    and "import_loaded_material H self m w1 = Raise e w2"
  shows "import_all_loaded_materials H self w = Raise e w2"
  using assms by (simp add: import_all_loaded_materials_def import_materials_append)

theorem import_all_stops_at_failure_witness:
  "loaded_mats two_materials = [] @ (''A'', [], True) # [(''B'', [], True)] \<and>
   import_loaded_material (refusing_host ''A'') two_materials ''A'' empty_world =
     Raise RuntimeError \<lparr>calls = [ShadingNode ''RedshiftMaterial'' ''A'' asShader], printed = []\<rparr> \<and>
   import_all_loaded_materials (refusing_host ''A'') two_materials empty_world =
     Raise RuntimeError \<lparr>calls = [ShadingNode ''RedshiftMaterial'' ''A'' asShader], printed = []\<rparr>"
proof -
  have h1: "loaded_mats two_materials = [] @ (''A'', [], True) # [(''B'', [], True)]"
    by (simp add: two_materials_def)
  have h2: "snd (([], True) :: mat_entry)" by simp
  have h3: "import_materials (refusing_host ''A'') two_materials [] empty_world = Ok () empty_world"
    by simp
  have h4: "import_loaded_material (refusing_host ''A'') two_materials ''A'' empty_world =
     Raise RuntimeError \<lparr>calls = [ShadingNode ''RedshiftMaterial'' ''A'' asShader], printed = []\<rparr>"
    by (simp add: build_eval two_materials_def)
  from h1 h4 import_all_stops_at_failure [OF h1 h2 h3 h4] show ?thesis by blast
qed

text \<open>
  C3 as stated fails: with two included materials and a host that refuses the shader
  node of the first, the batch raises after that one call, and the second material,
  which the host would build, is never asked for.
\<close>

theorem import_all_aborts_counterexample:
  "import_all_loaded_materials (refusing_host ''A'') two_materials empty_world =
     Raise RuntimeError \<lparr>calls = [ShadingNode ''RedshiftMaterial'' ''A'' asShader], printed = []\<rparr> \<and>
   include_of (loaded_mats two_materials) ''B'' = Some True \<and>
   import_loaded_material (refusing_host ''A'') two_materials ''B'' empty_world =
     Ok () \<lparr>calls = [ShadingNode ''RedshiftMaterial'' ''B'' asShader, Sets ''rsMaterial_B'',
                     ConnectAttr ''B.outColor'' ''rsMaterial_B.surfaceShader'' False], printed = []\<rparr>"
  by (simp add: build_eval two_materials_def include_of_def)

text \<open>
  C9. \<open>import_all_loaded_materials\<close> is \<open>import_loaded_material\<close> for exactly the
  materials whose include flag is true, in the catalog's order (each one started when the
  ones before it returned). For a material whose include flag is false, the material is
  not among them and no shader node is ever requested under its name, whatever the host
  answers.
\<close>

theorem import_all_builds_included_only:
  "import_all_loaded_materials H self w =
     build_each H self (included_materials (loaded_mats self)) w \<and>
   (distinct (map fst (loaded_mats self)) \<and> include_of (loaded_mats self) m = Some False \<longrightarrow>
      m \<notin> set (included_materials (loaded_mats self)) \<and>
      (\<forall>flag. ShadingNode ''RedshiftMaterial'' m flag \<notin>
                set (new_calls w (import_all_loaded_materials H self w))))"
proof (intro conjI impI)
  show "import_all_loaded_materials H self w =
     build_each H self (included_materials (loaded_mats self)) w"
    by (simp add: import_all_loaded_materials_def build_each_included)
next
  assume a: "distinct (map fst (loaded_mats self)) \<and> include_of (loaded_mats self) m = Some False"
  then obtain texs where "map_of (loaded_mats self) m = Some (texs, False)"
    by (auto simp: include_of_def)
  with a have "\<And>entry. (m, entry) \<in> set (loaded_mats self) \<Longrightarrow> \<not> snd entry"
    by (metis map_of_is_SomeI option.inject snd_conv)
  then show out: "m \<notin> set (included_materials (loaded_mats self))"
    by (fastforce simp: included_materials_def)
  have "emits (build_call (texture_type_filter self) (set (included_materials (loaded_mats self)))) w
      (import_all_loaded_materials H self w)"
    unfolding import_all_loaded_materials_def by (rule emits_import_materials) simp
  then have "list_all (build_call (texture_type_filter self) (set (included_materials (loaded_mats self))))
      (new_calls w (import_all_loaded_materials H self w))"
    by (rule emitsD)
  then show "\<forall>flag. ShadingNode ''RedshiftMaterial'' m flag \<notin>
                set (new_calls w (import_all_loaded_materials H self w))"
    using out by (auto simp: list_all_iff build_call_def)
qed

theorem import_all_builds_included_only_witness:
  "distinct (map fst (loaded_mats second_material_only)) \<and>
   include_of (loaded_mats second_material_only) ''A'' = Some False \<and>
   ''A'' \<notin> set (included_materials (loaded_mats second_material_only)) \<and>
   ShadingNode ''RedshiftMaterial'' ''A'' asShader \<notin>
     set (new_calls empty_world (import_all_loaded_materials echo_host second_material_only empty_world)) \<and>
   new_calls empty_world (import_all_loaded_materials echo_host second_material_only empty_world) =
     [ShadingNode ''RedshiftMaterial'' ''B'' asShader, Sets ''rsMaterial_B'',
      ConnectAttr ''B.outColor'' ''rsMaterial_B.surfaceShader'' False]"
proof -
  have h: "distinct (map fst (loaded_mats second_material_only)) \<and>
      include_of (loaded_mats second_material_only) ''A'' = Some False"
    by (simp add: second_material_only_def include_of_def)
  have e: "new_calls empty_world (import_all_loaded_materials echo_host second_material_only empty_world) =
     [ShadingNode ''RedshiftMaterial'' ''B'' asShader, Sets ''rsMaterial_B'',
      ConnectAttr ''B.outColor'' ''rsMaterial_B.surfaceShader'' False]"
    by (simp add: build_eval second_material_only_def)
  from h e import_all_builds_included_only [of echo_host second_material_only empty_world "''A''"]
  show ?thesis by blast
qed

text \<open>
  C10. For a name that is not a key of the catalog, \<open>import_loaded_material\<close> never
  returns: it raises, and the first thing it does is to request the shader node under
  that name, before any look at the catalog. When the host accepts the three calls of
  lines 77 to 79 (shader node, shading group, their connection), what is raised is
  \<open>KeyError\<close> of the name, with exactly those three calls issued; otherwise it is the
  host's own failure.
\<close>

theorem import_unknown_material_raises:
  assumes "map_of (loaded_mats self) m = None"
  shows "(\<exists>e w'. import_loaded_material H self m w = Raise e w' \<and>
            (e = KeyError m \<or> e = RuntimeError) \<and>
            take (Suc (length (calls w))) (calls w') =
              calls w @ [ShadingNode ''RedshiftMaterial'' m asShader]) \<and>
         (node_created H (calls w) (ShadingNode ''RedshiftMaterial'' m asShader) = Some node \<and>
          command_done H (calls w @ [ShadingNode ''RedshiftMaterial'' m asShader])
            (Sets (''rsMaterial_'' @ node)) \<and>
          command_done H
            (calls w @ [ShadingNode ''RedshiftMaterial'' m asShader, Sets (''rsMaterial_'' @ node)])
            (ConnectAttr (node @ ''.outColor'') (''rsMaterial_'' @ node @ ''.surfaceShader'') False)
          \<longrightarrow>
          import_loaded_material H self m w =
            Raise (KeyError m)
              (w\<lparr>calls := calls w @
                   [ShadingNode ''RedshiftMaterial'' m asShader, Sets (''rsMaterial_'' @ node),
                    ConnectAttr (node @ ''.outColor'') (''rsMaterial_'' @ node @ ''.surfaceShader'') False]\<rparr>))"
  using assms
  by (auto simp: import_loaded_material_def and_then_do_def shadingNode_def command_def issue_def
      split: option.splits)

theorem import_unknown_material_raises_witness:
  "map_of (loaded_mats MatImporter_init) ''Nope'' = None \<and>
   import_loaded_material echo_host MatImporter_init ''Nope'' empty_world =
     Raise (KeyError ''Nope'')
       (empty_world\<lparr>calls := calls empty_world @
          [ShadingNode ''RedshiftMaterial'' ''Nope'' asShader, Sets (''rsMaterial_'' @ ''Nope''),
           ConnectAttr (''Nope'' @ ''.outColor'') (''rsMaterial_'' @ ''Nope'' @ ''.surfaceShader'') False]\<rparr>)"
proof -
  have h: "map_of (loaded_mats MatImporter_init) ''Nope'' = None"
    by (simp add: MatImporter_init_def)
  have g: "node_created echo_host (calls empty_world) (ShadingNode ''RedshiftMaterial'' ''Nope'' asShader) = Some ''Nope'' \<and>
          command_done echo_host (calls empty_world @ [ShadingNode ''RedshiftMaterial'' ''Nope'' asShader])
            (Sets (''rsMaterial_'' @ ''Nope'')) \<and>
          command_done echo_host
            (calls empty_world @ [ShadingNode ''RedshiftMaterial'' ''Nope'' asShader, Sets (''rsMaterial_'' @ ''Nope'')])
            (ConnectAttr (''Nope'' @ ''.outColor'') (''rsMaterial_'' @ ''Nope'' @ ''.surfaceShader'') False)"
    by (simp add: echo_host_def)
  from h g import_unknown_material_raises [OF h, of echo_host empty_world "''Nope''"]
  show ?thesis by blast
qed

section \<open>The texture loop\<close>

lemma TexType_getitem_None: "TexType_getitem s = None \<longleftrightarrow> (\<forall>k. TexType_name k \<noteq> s)"
proof
  assume "TexType_getitem s = None"
  then have "\<forall>k \<in> set TexType_members. TexType_name k \<noteq> s"
    by (simp add: TexType_getitem_def find_None_iff)
  moreover have "k \<in> set TexType_members" for k
    by (cases k) (simp_all add: TexType_members_def)
  ultimately show "\<forall>k. TexType_name k \<noteq> s" by blast
next
  assume "\<forall>k. TexType_name k \<noteq> s"
  then show "TexType_getitem s = None"
    by (simp add: TexType_getitem_def find_None_iff)
qed

lemma TexType_getitem_Some: "TexType_getitem s = Some k \<longleftrightarrow> TexType_name k = s"
  by (cases k) (auto simp: TexType_getitem_def TexType_members_def split: if_splits)

lemma import_textures_append:
  "import_textures H self mname mnode (pre @ post) w =
   and_then (import_textures H self mname mnode pre w) (\<lambda>_. import_textures H self mname mnode post)"
proof (induction pre arbitrary: w)
  case Nil
  show ?case by simp
next
  case (Cons item pre)
  show ?case
    by (cases "import_texture H self mname mnode item w") (simp_all add: Cons)
qed










text \<open>
  C6. When the loop of \<open>import_loaded_material\<close> comes to an included texture whose
  token is the name of no member of \<open>TexType\<close>, that iteration prints the message of
  line 87, issues no host call and raises nothing, and the loop goes on with the textures
  after it. The message is the token, \<open>texture type is not supported\<close>, then the name of
  the material's shader node, an underscore, the token and \<open>was not imported\<close>, then
  \<open>File:\<close> and the file path, each on a line of its own: it names the material, the
  token and the path.
\<close>

theorem unsupported_texture_is_skipped:
  assumes "\<forall>k. TexType_name k \<noteq> tex"
    and "import_textures H self mname mnode pre w = Ok () w1"
    and "msg = tex @ '' texture type is not supported'' @ [CHR 0x0A] @
               mnode @ ''_'' @ tex @ '' was not imported'' @ [CHR 0x0A] @
               ''File: '' @ path @ [CHR 0x0A]"
  shows "import_texture H self mname mnode (tex, path, True) w1 =
           Ok () (w1\<lparr>printed := printed w1 @ [msg]\<rparr>) \<and>
         import_textures H self mname mnode (pre @ (tex, path, True) # post) w =
           import_textures H self mname mnode post (w1\<lparr>printed := printed w1 @ [msg]\<rparr>) \<and>
         sublist tex msg \<and> sublist mnode msg \<and> sublist path msg"
proof -
  have "TexType_getitem tex = None"
    using assms(1) by (simp add: TexType_getitem_None)
  moreover have m: "not_supported_message tex mnode path = msg"
    by (simp only: not_supported_message_def assms(3))
  ultimately have one: "import_texture H self mname mnode (tex, path, True) w1 =
           Ok () (w1\<lparr>printed := printed w1 @ [msg]\<rparr>)"
    by (simp add: import_texture_def py_print_def)
  then have loop: "import_textures H self mname mnode (pre @ (tex, path, True) # post) w =
           import_textures H self mname mnode post (w1\<lparr>printed := printed w1 @ [msg]\<rparr>)"
    using assms(2) by (simp add: import_textures_append)
  have 1: "sublist tex msg"
    unfolding assms(3) by (rule sublist_append_rightI)
  have "msg = (tex @ '' texture type is not supported'' @ [CHR 0x0A]) @
              mnode @ (''_'' @ tex @ '' was not imported'' @ [CHR 0x0A] @ ''File: '' @ path @ [CHR 0x0A])"
    unfolding assms(3) by simp
  then have 2: "sublist mnode msg"
    by (simp only: sublist_appendI)
  have "msg = (tex @ '' texture type is not supported'' @ [CHR 0x0A] @
               mnode @ ''_'' @ tex @ '' was not imported'' @ [CHR 0x0A] @ ''File: '') @
              path @ [CHR 0x0A]"
    unfolding assms(3) by simp
  then have 3: "sublist path msg"
    by (simp only: sublist_appendI)
  from one loop 1 2 3 show ?thesis by blast
qed

theorem unsupported_texture_is_skipped_witness:
  "import_loaded_material echo_host rock_importer ''Rock'' empty_world =
     Ok () \<lparr>calls = [ShadingNode ''RedshiftMaterial'' ''Rock'' asShader, Sets ''rsMaterial_Rock'',
                     ConnectAttr ''Rock.outColor'' ''rsMaterial_Rock.surfaceShader'' False],
            printed = [''Foo texture type is not supported'' @ [CHR 0x0A] @
                         ''Rock_Foo was not imported'' @ [CHR 0x0A] @
                         ''File: /tex/Mesh_Rock_mat_Foo.png'' @ [CHR 0x0A],
                       ''basecolor texture type is not supported'' @ [CHR 0x0A] @
                         ''Rock_basecolor was not imported'' @ [CHR 0x0A] @
                         ''File: /tex/Mesh_Rock_mat_basecolor.png'' @ [CHR 0x0A]]\<rparr> \<and>
   import_textures echo_host rock_importer ''Rock'' ''Rock''
     ([] @ (''Foo'', ''/tex/Mesh_Rock_mat_Foo.png'', True) #
        [(''Emissive'', ''/tex/Mesh_Rock_mat_Emissive.png'', True)]) empty_world =
     Ok () \<lparr>calls = [],
            printed = [''Foo texture type is not supported'' @ [CHR 0x0A] @
                         ''Rock_Foo was not imported'' @ [CHR 0x0A] @
                         ''File: /tex/Mesh_Rock_mat_Foo.png'' @ [CHR 0x0A]]\<rparr> \<and>
   sublist ''Foo'' (''Foo texture type is not supported'' @ [CHR 0x0A] @
                      ''Rock_Foo was not imported'' @ [CHR 0x0A] @
                      ''File: /tex/Mesh_Rock_mat_Foo.png'' @ [CHR 0x0A]) \<and>
   sublist ''Rock'' (''Foo texture type is not supported'' @ [CHR 0x0A] @
                       ''Rock_Foo was not imported'' @ [CHR 0x0A] @
                       ''File: /tex/Mesh_Rock_mat_Foo.png'' @ [CHR 0x0A]) \<and>
   sublist ''/tex/Mesh_Rock_mat_Foo.png''
     (''Foo texture type is not supported'' @ [CHR 0x0A] @
        ''Rock_Foo was not imported'' @ [CHR 0x0A] @
        ''File: /tex/Mesh_Rock_mat_Foo.png'' @ [CHR 0x0A])"
proof -
  let ?msg = "''Foo'' @ '' texture type is not supported'' @ [CHR 0x0A] @
               ''Rock'' @ ''_'' @ ''Foo'' @ '' was not imported'' @ [CHR 0x0A] @
               ''File: '' @ ''/tex/Mesh_Rock_mat_Foo.png'' @ [CHR 0x0A]"
  have h1: "\<forall>k. TexType_name k \<noteq> ''Foo''"
  proof
    fix k show "TexType_name k \<noteq> ''Foo''" by (cases k) simp_all
  qed
  have h2: "import_textures echo_host rock_importer ''Rock'' ''Rock'' [] empty_world = Ok () empty_world"
    by simp
  have a: "import_loaded_material echo_host rock_importer ''Rock'' empty_world =
     Ok () \<lparr>calls = [ShadingNode ''RedshiftMaterial'' ''Rock'' asShader, Sets ''rsMaterial_Rock'',
                     ConnectAttr ''Rock.outColor'' ''rsMaterial_Rock.surfaceShader'' False],
            printed = [''Foo texture type is not supported'' @ [CHR 0x0A] @
                         ''Rock_Foo was not imported'' @ [CHR 0x0A] @
                         ''File: /tex/Mesh_Rock_mat_Foo.png'' @ [CHR 0x0A],
                       ''basecolor texture type is not supported'' @ [CHR 0x0A] @
                         ''Rock_basecolor was not imported'' @ [CHR 0x0A] @
                         ''File: /tex/Mesh_Rock_mat_basecolor.png'' @ [CHR 0x0A]]\<rparr>"
    by (simp add: build_eval rock_importer_def not_supported_message_def)
  have b: "import_textures echo_host rock_importer ''Rock'' ''Rock''
        [(''Emissive'', ''/tex/Mesh_Rock_mat_Emissive.png'', True)]
        (empty_world\<lparr>printed := printed empty_world @ [?msg]\<rparr>) =
      Ok () \<lparr>calls = [], printed = [?msg]\<rparr>"
    by (simp add: build_eval rock_importer_def)
  from unsupported_texture_is_skipped [OF h1 h2 refl, of "''/tex/Mesh_Rock_mat_Foo.png''"
      "[(''Emissive'', ''/tex/Mesh_Rock_mat_Emissive.png'', True)]"] a b
  show ?thesis by simp
qed



section \<open>The kinds that are not implemented\<close>

lemma endswith_last: "endswith s e \<Longrightarrow> e \<noteq> [] \<Longrightarrow> last s = last e"
  unfolding endswith_suffix by (auto simp: suffix_def)

lemma build_call_not_wired:
  assumes "build_call flt names c" and "Emissive \<notin> flt" and "Height \<notin> flt"
  shows "\<not> wires Emissive c \<and> \<not> wires Height c"
proof (cases c)
  case (DefaultNavigation src dst)
  from assms(1) obtain j where j: "j \<in> flt" "endswith dst (''.'' @ TexType_value j)"
    by (auto simp: build_call_def DefaultNavigation)
  then have "last dst = last (''.'' @ TexType_value j)"
    by (simp add: endswith_last)
  moreover have "j \<noteq> Emissive" "j \<noteq> Height"
    using j(1) assms(2,3) by auto
  ultimately have "last dst \<noteq> CHR ''d''"
    by (cases j) simp_all
  moreover have "last dst = CHR ''d''" if "wires k c" "k = Emissive \<or> k = Height" for k
    using that endswith_last [of dst "''.'' @ TexType_value k"]
    by (auto simp: wires_def DefaultNavigation)
  ultimately show ?thesis by blast
qed (simp_all add: wires_def)

lemma toggle_filter:
  "texture_type_filter (state_of (toggle k v self)) \<subseteq> insert k (texture_type_filter self)"
  by (auto simp: toggle_def)

lemma never_wired_initial: "never_wired initial"
  by (simp add: never_wired_def initial_def delete_materials_data_def MatImporter_init_def
      TexType_members_def)

lemma never_wired_handle:
  assumes "never_wired s" and "ui_enabled e"
  shows "never_wired (handle lib e s)"
proof -
  obtain self w where s: "s = (self, w)" by (cases s)
  from assms(1) have flt: "Emissive \<notin> texture_type_filter self" "Height \<notin> texture_type_filter self"
    and old: "list_all (\<lambda>c. \<not> wires Emissive c \<and> \<not> wires Height c) (calls w)"
    by (simp_all add: never_wired_def s)
  show ?thesis
  proof (cases e)
    case (OpenFolder chosen)
    then show ?thesis
      using flt old by (cases chosen) (auto simp: never_wired_def s)
  next
    case (ToggleTexType k v)
    with assms(2) have "k \<noteq> Emissive" "k \<noteq> Height" by simp_all
    with flt toggle_filter [of k v self]
    have "Emissive \<notin> texture_type_filter (state_of (toggle k v self))"
      "Height \<notin> texture_type_filter (state_of (toggle k v self))"
      by auto
    then show ?thesis using old by (simp add: never_wired_def s ToggleTexType)
  next
    case (ToggleMaterial name state)
    then show ?thesis using flt old by (simp add: never_wired_def s)
  next
    case (ToggleTexture name tex state)
    then show ?thesis using flt old by (simp add: never_wired_def s)
  next
    case (ImportSelected H yes)
    let ?r = "import_all_loaded_materials H self w"
    let ?P = "build_call (texture_type_filter self) (set (included_materials (loaded_mats self)))"
    have "emits ?P w ?r"
      unfolding import_all_loaded_materials_def by (rule emits_import_materials) simp
    then have c: "calls (state_of ?r) = calls w @ new_calls w ?r" and n: "list_all ?P (new_calls w ?r)"
      by (rule emitsD)+
    from n have "list_all (\<lambda>c. \<not> wires Emissive c \<and> \<not> wires Height c) (new_calls w ?r)"
      using build_call_not_wired [OF _ flt] by (auto simp: list_all_iff)
    with old have "list_all (\<lambda>c. \<not> wires Emissive c \<and> \<not> wires Height c) (calls (state_of ?r))"
      by (simp add: c)
    then show ?thesis using flt old by (simp add: never_wired_def s ImportSelected)
  qed
qed

lemma reachable_run:
  "reachable lib s \<Longrightarrow> list_all ui_enabled es \<Longrightarrow> reachable lib (run lib es s)"
proof (induction es arbitrary: s)
  case Nil
  then show ?case by simp
next
  case (Cons e es)
  from Cons.prems have "reachable lib (handle lib e s)"
    by (simp add: reachable.step)
  then show ?case using Cons by simp
qed

text \<open>The filter is what keeps them out: with \<open>Emissive\<close> in the filter it is wired.\<close>

lemma emissive_wired_when_in_filter:
  "list_ex (wires Emissive)
     (calls (state_of (import_all_loaded_materials echo_host
        \<lparr>loaded_mats = [(''Rock'', [(''Emissive'', ''/tex/Mesh_Rock_mat_Emissive.png'', True)], True)],
         texture_type_filter = {Emissive}\<rparr> empty_world)))"
  by (simp add: build_eval wires_def endswith_def)

text \<open>
  C7. In every state reached from the start of the tool by scans, toggles of the enabled
  check boxes and imports, whatever the hosts answer and whatever the include flags are,
  \<open>Emissive\<close> and \<open>Height\<close> are outside the filter and none of the calls issued wires a
  texture into the slot of \<open>Emissive\<close> or of \<open>Height\<close>.
\<close>

theorem unimplemented_kinds_never_wired:
  "reachable lib s \<Longrightarrow>
     Emissive \<notin> texture_type_filter (fst s) \<and> Height \<notin> texture_type_filter (fst s) \<and>
     list_all (\<lambda>c. \<not> wires Emissive c \<and> \<not> wires Height c) (calls (snd s))"
proof (induction rule: reachable.induct)
  case start
  show ?case using never_wired_initial by (simp add: never_wired_def)
next
  case (step s e)
  then have "never_wired (handle lib e s)"
    by (intro never_wired_handle) (simp_all add: never_wired_def)
  then show ?case by (simp add: never_wired_def)
qed

theorem unimplemented_kinds_never_wired_witness:
  "texture_of (loaded_mats (fst (run posix_ascii emissive_session initial))) ''Rock'' ''Emissive'' =
     Some (''/tex/Mesh_Rock_mat_Emissive.png'', True) \<and>
   Emissive \<notin> texture_type_filter (fst (run posix_ascii emissive_session initial)) \<and>
   Height \<notin> texture_type_filter (fst (run posix_ascii emissive_session initial)) \<and>
   list_all (\<lambda>c. \<not> wires Emissive c \<and> \<not> wires Height c)
     (calls (snd (run posix_ascii emissive_session initial)))"
proof -
  have "reachable posix_ascii (run posix_ascii emissive_session initial)"
    by (rule reachable_run [OF reachable.start]) (simp add: emissive_session_def)
  from unimplemented_kinds_never_wired [OF this]
  have 1: "Emissive \<notin> texture_type_filter (fst (run posix_ascii emissive_session initial)) \<and>
   Height \<notin> texture_type_filter (fst (run posix_ascii emissive_session initial)) \<and>
   list_all (\<lambda>c. \<not> wires Emissive c \<and> \<not> wires Height c)
     (calls (snd (run posix_ascii emissive_session initial)))" .
  have 2: "texture_of (loaded_mats (fst (run posix_ascii emissive_session initial))) ''Rock'' ''Emissive'' =
     Some (''/tex/Mesh_Rock_mat_Emissive.png'', True)"
    by (simp add: emissive_session_def initial_def delete_materials_data_def MatImporter_init_def
        scan_eval toggle_def on_texture_selected_def)
  from 1 2 show ?thesis by blast
qed

end
